theory Spec2Isabelle
  imports Complex_Main
begin

section \<open>Data model (the types module)\<close>

text \<open>
  A \<open>Date\<close> is its time value, the milliseconds since the epoch. The counters of the
  records (\<open>failedLoginAttempts\<close>, \<open>transactionsToday\<close>, ...) are \<open>number\<close>s that hold
  integers and are modelled as \<open>int\<close>; measurements (\<open>uptime\<close>, coordinates, averages) are
  \<open>real\<close>. An optional property (\<open>name?: T\<close>) and a nullable one (\<open>T | null\<close>) are
  \<open>T option\<close>. Field names that several interfaces share carry the interface's name.
\<close>

type_synonym date = int

datatype UserRole = Administrator | SupportAgent | ServiceDeskManager | Merchant

datatype UserStatus = Active | Locked

datatype TerminalStatus = Online | Offline | Maintenance | Error

datatype TicketStatus = Open | InProgress | Resolved | Closed | Scheduled

datatype TicketPriority = Low | Medium | High | Critical

datatype TicketSource =
  Src_System | Src_Merchant | Src_CustomerCall | Src_WhatsApp | Src_Email

datatype NetworkType = WiFi | Ethernet | Net4G | Net3G

datatype AlertType = TerminalDown | SLABreach | HighPriorityTicket | SystemError

datatype AlertSeverity = Sev_Low | Sev_Medium | Sev_High | Sev_Critical

record User =
  user_id :: string
  fullName :: string
  username :: string
  email :: string
  password :: string
  role :: UserRole
  user_status :: UserStatus
  failedLoginAttempts :: int
  lastLogin :: "date option"
  user_createdAt :: date
  user_updatedAt :: date
  assignedTerminals :: "string list option"
  permissions :: "string list option"

record Coordinates =
  lat :: real
  lng :: real

record Terminal =
  terminal_id :: string
  location :: string
  merchant :: string
  terminal_status :: TerminalStatus
  lastSeen :: date
  coordinates :: Coordinates
  model :: "string option"
  serialNumber :: "string option"
  firmwareVersion :: "string option"
  networkType :: "NetworkType option"
  uptime :: real
  transactionsToday :: int
  lastTransaction :: "date option"
  lastMaintenance :: "date option"
  nextMaintenance :: "date option"
  terminal_createdAt :: date
  terminal_updatedAt :: date

record SupportTicket =
  ticket_id :: string
  title :: string
  description :: string
  terminalId :: string
  priority :: TicketPriority
  ticket_status :: TicketStatus
  source :: TicketSource
  reportedBy :: string
  assignedTo :: "string option"
  ticket_createdAt :: date
  ticket_updatedAt :: date
  resolvedAt :: "date option"
  slaTarget :: date
  slaBreach :: bool
  slaBreachDuration :: int
  resolution :: "string option"
  resolutionTime :: "int option"
  satisfactionRating :: "int option"
  feedback :: "string option"

record SystemAlert =
  alert_id :: string
  alert_type :: AlertType
  message :: string
  severity :: AlertSeverity
  alert_terminalId :: "string option"
  alert_ticketId :: "string option"
  acknowledged :: bool
  acknowledgedBy :: "string option"
  alert_createdAt :: date
  acknowledgedAt :: "date option"

record PerformanceMetrics =
  pm_date :: string
  totalTerminals :: int
  onlineTerminals :: int
  offlineTerminals :: int
  maintenanceTerminals :: int
  errorTerminals :: int
  averageUptime :: real
  totalTickets :: int
  openTickets :: int
  resolvedTickets :: int
  averageResolutionTime :: real
  slaCompliance :: real
  customerSatisfaction :: real

text \<open>
  \<open>Partial<T>\<close>: an object holding any of the properties of \<open>T\<close>. It is the list of its
  own properties, each a key with its value, in the order the spread \<open>...updates\<close> copies
  them (a later one wins, as in an object literal). The empty object \<open>{}\<close> is \<open>[]\<close>.
  An optional property may be present with the value \<open>undefined\<close> (\<open>None\<close>).
\<close>

datatype UserField =
  U_id string
| U_fullName string
| U_username string
| U_email string
| U_password string
| U_role UserRole
| U_status UserStatus
| U_failedLoginAttempts int
| U_lastLogin "date option"
| U_createdAt date
| U_updatedAt date
| U_assignedTerminals "string list option"
| U_permissions "string list option"

datatype TerminalField =
  T_id string
| T_location string
| T_merchant string
| T_status TerminalStatus
| T_lastSeen date
| T_coordinates Coordinates
| T_model "string option"
| T_serialNumber "string option"
| T_firmwareVersion "string option"
| T_networkType "NetworkType option"
| T_uptime real
| T_transactionsToday int
| T_lastTransaction "date option"
| T_lastMaintenance "date option"
| T_nextMaintenance "date option"
| T_createdAt date
| T_updatedAt date

datatype TicketField =
  K_id string
| K_title string
| K_description string
| K_terminalId string
| K_priority TicketPriority
| K_status TicketStatus
| K_source TicketSource
| K_reportedBy string
| K_assignedTo "string option"
| K_createdAt date
| K_updatedAt date
| K_resolvedAt "date option"
| K_slaTarget date
| K_slaBreach bool
| K_slaBreachDuration int
| K_resolution "string option"
| K_resolutionTime "int option"
| K_satisfactionRating "int option"
| K_feedback "string option"

fun setUserField :: "UserField \<Rightarrow> User \<Rightarrow> User" where
  "setUserField (U_id v) u = u\<lparr>user_id := v\<rparr>"
| "setUserField (U_fullName v) u = u\<lparr>fullName := v\<rparr>"
| "setUserField (U_username v) u = u\<lparr>username := v\<rparr>"
| "setUserField (U_email v) u = u\<lparr>email := v\<rparr>"
| "setUserField (U_password v) u = u\<lparr>password := v\<rparr>"
| "setUserField (U_role v) u = u\<lparr>role := v\<rparr>"
| "setUserField (U_status v) u = u\<lparr>user_status := v\<rparr>"
| "setUserField (U_failedLoginAttempts v) u = u\<lparr>failedLoginAttempts := v\<rparr>"
| "setUserField (U_lastLogin v) u = u\<lparr>lastLogin := v\<rparr>"
| "setUserField (U_createdAt v) u = u\<lparr>user_createdAt := v\<rparr>"
| "setUserField (U_updatedAt v) u = u\<lparr>user_updatedAt := v\<rparr>"
| "setUserField (U_assignedTerminals v) u = u\<lparr>assignedTerminals := v\<rparr>"
| "setUserField (U_permissions v) u = u\<lparr>permissions := v\<rparr>"

fun setTerminalField :: "TerminalField \<Rightarrow> Terminal \<Rightarrow> Terminal" where
  "setTerminalField (T_id v) t = t\<lparr>terminal_id := v\<rparr>"
| "setTerminalField (T_location v) t = t\<lparr>location := v\<rparr>"
| "setTerminalField (T_merchant v) t = t\<lparr>merchant := v\<rparr>"
| "setTerminalField (T_status v) t = t\<lparr>terminal_status := v\<rparr>"
| "setTerminalField (T_lastSeen v) t = t\<lparr>lastSeen := v\<rparr>"
| "setTerminalField (T_coordinates v) t = t\<lparr>coordinates := v\<rparr>"
| "setTerminalField (T_model v) t = t\<lparr>model := v\<rparr>"
| "setTerminalField (T_serialNumber v) t = t\<lparr>serialNumber := v\<rparr>"
| "setTerminalField (T_firmwareVersion v) t = t\<lparr>firmwareVersion := v\<rparr>"
| "setTerminalField (T_networkType v) t = t\<lparr>networkType := v\<rparr>"
| "setTerminalField (T_uptime v) t = t\<lparr>uptime := v\<rparr>"
| "setTerminalField (T_transactionsToday v) t = t\<lparr>transactionsToday := v\<rparr>"
| "setTerminalField (T_lastTransaction v) t = t\<lparr>lastTransaction := v\<rparr>"
| "setTerminalField (T_lastMaintenance v) t = t\<lparr>lastMaintenance := v\<rparr>"
| "setTerminalField (T_nextMaintenance v) t = t\<lparr>nextMaintenance := v\<rparr>"
| "setTerminalField (T_createdAt v) t = t\<lparr>terminal_createdAt := v\<rparr>"
| "setTerminalField (T_updatedAt v) t = t\<lparr>terminal_updatedAt := v\<rparr>"

fun setTicketField :: "TicketField \<Rightarrow> SupportTicket \<Rightarrow> SupportTicket" where
  "setTicketField (K_id v) k = k\<lparr>ticket_id := v\<rparr>"
| "setTicketField (K_title v) k = k\<lparr>title := v\<rparr>"
| "setTicketField (K_description v) k = k\<lparr>description := v\<rparr>"
| "setTicketField (K_terminalId v) k = k\<lparr>terminalId := v\<rparr>"
| "setTicketField (K_priority v) k = k\<lparr>priority := v\<rparr>"
| "setTicketField (K_status v) k = k\<lparr>ticket_status := v\<rparr>"
| "setTicketField (K_source v) k = k\<lparr>source := v\<rparr>"
| "setTicketField (K_reportedBy v) k = k\<lparr>reportedBy := v\<rparr>"
| "setTicketField (K_assignedTo v) k = k\<lparr>assignedTo := v\<rparr>"
| "setTicketField (K_createdAt v) k = k\<lparr>ticket_createdAt := v\<rparr>"
| "setTicketField (K_updatedAt v) k = k\<lparr>ticket_updatedAt := v\<rparr>"
| "setTicketField (K_resolvedAt v) k = k\<lparr>resolvedAt := v\<rparr>"
| "setTicketField (K_slaTarget v) k = k\<lparr>slaTarget := v\<rparr>"
| "setTicketField (K_slaBreach v) k = k\<lparr>slaBreach := v\<rparr>"
| "setTicketField (K_slaBreachDuration v) k = k\<lparr>slaBreachDuration := v\<rparr>"
| "setTicketField (K_resolution v) k = k\<lparr>resolution := v\<rparr>"
| "setTicketField (K_resolutionTime v) k = k\<lparr>resolutionTime := v\<rparr>"
| "setTicketField (K_satisfactionRating v) k = k\<lparr>satisfactionRating := v\<rparr>"
| "setTicketField (K_feedback v) k = k\<lparr>feedback := v\<rparr>"

text \<open>The object spread \<open>{ ...obj, ...updates }\<close>: \<open>obj\<close> with every property of
  \<open>updates\<close> written over it.\<close>

definition spreadUser :: "User \<Rightarrow> UserField list \<Rightarrow> User" where
  "spreadUser u updates = fold setUserField updates u"

definition spreadTerminal :: "Terminal \<Rightarrow> TerminalField list \<Rightarrow> Terminal" where
  "spreadTerminal t updates = fold setTerminalField updates t"

definition spreadTicket :: "SupportTicket \<Rightarrow> TicketField list \<Rightarrow> SupportTicket" where
  "spreadTicket k updates = fold setTicketField updates k"


section \<open>The browser's storage\<close>

text \<open>
  \<open>localStorage\<close> maps keys to serialised values. An entry is represented by the value
  that \<open>JSON.parse\<close> gives back for it: one of the shapes the service stores, or
  \<open>JText\<close> for any other content. \<open>JSON.stringify\<close> followed by \<open>JSON.parse\<close> is the
  identity on these values (a \<open>Date\<close> stays its time value, an \<open>undefined\<close> property
  stays absent).

  \<open>localStorage.setItem\<close> can throw (the quota is exceeded). Whether the next write
  throws is the environment's choice: \<open>faults\<close> lists the outcomes of the coming writes
  (\<open>True\<close>: it throws), and a write past the end of the list succeeds.
  \<open>localStorage.getItem\<close> and \<open>removeItem\<close> have no failure of their own.
  \<open>console\<close> collects the messages of \<open>console.error\<close>.
\<close>

datatype json =
  JUsers "User list"
| JTerminals "Terminal list"
| JTickets "SupportTicket list"
| JAlerts "SystemAlert list"
| JMetrics "PerformanceMetrics list"
| JUser User
| JText string

record localStorage =
  items :: "string \<rightharpoonup> json"
  faults :: "bool list"
  console :: "string list"

definition USERS :: string where "USERS = ''terminal_pulse_users''"
definition TERMINALS :: string where "TERMINALS = ''terminal_pulse_terminals''"
definition TICKETS :: string where "TICKETS = ''terminal_pulse_tickets''"
definition COMMENTS :: string where "COMMENTS = ''terminal_pulse_comments''"
definition ALERTS :: string where "ALERTS = ''terminal_pulse_alerts''"
definition METRICS :: string where "METRICS = ''terminal_pulse_metrics''"
definition CURRENT_USER :: string where "CURRENT_USER = ''terminal_pulse_current_user''"

text \<open>\<open>Object.values(this.STORAGE_KEYS)\<close>, in the order of the declaration.\<close>

definition STORAGE_KEYS :: "string list" where
  "STORAGE_KEYS = [USERS, TERMINALS, TICKETS, COMMENTS, ALERTS, METRICS, CURRENT_USER]"

subsection \<open>Generic storage methods\<close>

definition setItem :: "string \<Rightarrow> json \<Rightarrow> localStorage \<Rightarrow> localStorage" where
  "setItem key data st =
     (case faults st of
        [] \<Rightarrow> st\<lparr>items := (items st)(key \<mapsto> data)\<rparr>
      | False # fs \<Rightarrow> st\<lparr>items := (items st)(key \<mapsto> data), faults := fs\<rparr>
      | True # fs \<Rightarrow>
          st\<lparr>faults := fs, console := console st @ [''Error saving to localStorage:'']\<rparr>)"

text \<open>\<open>getItem\<close>: the parsed entry; \<open>None\<close> is \<open>null\<close>, the key is absent.\<close>

definition getItem :: "localStorage \<Rightarrow> string \<Rightarrow> json option" where
  "getItem st key = items st key"

definition removeItem :: "string \<Rightarrow> localStorage \<Rightarrow> localStorage" where
  "removeItem key st = st\<lparr>items := (items st)(key := None)\<rparr>"

text \<open>
  \<open>getItem<T>\<close> casts what it parsed to \<open>T\<close> without a check. The model reads an entry
  of the expected shape as that value; the store is \<open>well_shaped\<close> when each of the six
  data keys, if present, holds its shape. An entry of another shape is not a value of
  \<open>T\<close>: the accessors below read it as absent, and the theorems about calls that read
  the storage assume \<open>well_shaped\<close>.
\<close>

fun is_users :: "json option \<Rightarrow> bool" where
  "is_users None = True" | "is_users (Some (JUsers _)) = True" | "is_users _ = False"

fun is_terminals :: "json option \<Rightarrow> bool" where
  "is_terminals None = True" | "is_terminals (Some (JTerminals _)) = True"
| "is_terminals _ = False"

fun is_tickets :: "json option \<Rightarrow> bool" where
  "is_tickets None = True" | "is_tickets (Some (JTickets _)) = True" | "is_tickets _ = False"

fun is_alerts :: "json option \<Rightarrow> bool" where
  "is_alerts None = True" | "is_alerts (Some (JAlerts _)) = True" | "is_alerts _ = False"

fun is_metrics :: "json option \<Rightarrow> bool" where
  "is_metrics None = True" | "is_metrics (Some (JMetrics _)) = True" | "is_metrics _ = False"

fun is_user :: "json option \<Rightarrow> bool" where
  "is_user None = True" | "is_user (Some (JUser _)) = True" | "is_user _ = False"

definition well_shaped :: "localStorage \<Rightarrow> bool" where
  "well_shaped st \<longleftrightarrow>
     is_users (items st USERS) \<and> is_terminals (items st TERMINALS) \<and>
     is_tickets (items st TICKETS) \<and> is_alerts (items st ALERTS) \<and>
     is_metrics (items st METRICS) \<and> is_user (items st CURRENT_USER)"

subsection \<open>Helpers of the runtime\<close>

text \<open>\<open>Array.prototype.findIndex\<close>: the first index whose element satisfies the
  predicate; \<open>None\<close> stands for \<open>-1\<close>.\<close>

fun findIndex :: "('a \<Rightarrow> bool) \<Rightarrow> 'a list \<Rightarrow> nat option" where
  "findIndex P [] = None"
| "findIndex P (x # xs) =
     (if P x then Some 0 else map_option Suc (findIndex P xs))"

text \<open>The decimal numeral of an integer, as a template literal prints \<open>Date.now()\<close>.\<close>

fun decimal_nat :: "nat \<Rightarrow> string" where
  "decimal_nat n =
     (if n < 10 then [''0123456789'' ! n]
      else decimal_nat (n div 10) @ [''0123456789'' ! (n mod 10)])"

declare decimal_nat.simps [simp del]

definition decimal :: "int \<Rightarrow> string" where
  "decimal i = (if i < 0 then ''-'' @ decimal_nat (nat (- i)) else decimal_nat (nat i))"

section \<open>The storage service\<close>

subsection \<open>User management\<close>

definition getUsers :: "localStorage \<Rightarrow> User list" where
  "getUsers st = (case getItem st USERS of Some (JUsers us) \<Rightarrow> us | _ \<Rightarrow> [])"

definition getUserById :: "localStorage \<Rightarrow> string \<Rightarrow> User option" where
  "getUserById st ident = find (\<lambda>user. user_id user = ident) (getUsers st)"

definition getUserByUsername :: "localStorage \<Rightarrow> string \<Rightarrow> User option" where
  "getUserByUsername st name = find (\<lambda>user. username user = name) (getUsers st)"

text \<open>
  \<open>createUser(userData)\<close>: \<open>userData\<close> has every field but \<open>id\<close>, \<open>createdAt\<close> and
  \<open>updatedAt\<close>; it is passed as a \<open>User\<close> whose three omitted fields are overwritten.
  \<open>t_id\<close> is the reading of \<open>Date.now()\<close>, \<open>rnd\<close> the text
  \<open>Math.random().toString(36).substr(2, 9)\<close>, and \<open>t_created\<close>, \<open>t_updated\<close> are the two
  \<open>new Date()\<close>.
\<close>

definition createUser ::
  "User \<Rightarrow> date \<Rightarrow> string \<Rightarrow> date \<Rightarrow> date \<Rightarrow> localStorage \<Rightarrow> User \<times> localStorage" where
  "createUser userData t_id rnd t_created t_updated st =
     (let users = getUsers st;
          newUser = userData\<lparr>user_id := ''user-'' @ decimal t_id @ ''-'' @ rnd,
                             user_createdAt := t_created, user_updatedAt := t_updated\<rparr>
      in (newUser, setItem USERS (JUsers (users @ [newUser])) st))"

text \<open>\<open>updateUser(id, updates)\<close>; \<open>now\<close> is its \<open>new Date()\<close>. The result \<open>None\<close> is
  \<open>null\<close>.\<close>

definition updateUser ::
  "string \<Rightarrow> UserField list \<Rightarrow> date \<Rightarrow> localStorage \<Rightarrow> User option \<times> localStorage" where
  "updateUser ident updates now st =
     (let users = getUsers st in
      case findIndex (\<lambda>user. user_id user = ident) users of
        None \<Rightarrow> (None, st)
      | Some index \<Rightarrow>
          (let users' = users[index := (spreadUser (users ! index) updates)
                                          \<lparr>user_updatedAt := now\<rparr>]
           in (Some (users' ! index), setItem USERS (JUsers users') st)))"

definition deleteUser :: "string \<Rightarrow> localStorage \<Rightarrow> bool \<times> localStorage" where
  "deleteUser ident st =
     (let users = getUsers st;
          filteredUsers = filter (\<lambda>user. user_id user \<noteq> ident) users
      in if length filteredUsers = length users then (False, st)
         else (True, setItem USERS (JUsers filteredUsers) st))"

subsection \<open>Authentication slot\<close>

definition getCurrentUser :: "localStorage \<Rightarrow> User option" where
  "getCurrentUser st = (case getItem st CURRENT_USER of Some (JUser u) \<Rightarrow> Some u | _ \<Rightarrow> None)"

definition setCurrentUser :: "User option \<Rightarrow> localStorage \<Rightarrow> localStorage" where
  "setCurrentUser user st =
     (case user of
        Some u \<Rightarrow> setItem CURRENT_USER (JUser u) st
      | None \<Rightarrow> removeItem CURRENT_USER st)"

subsection \<open>Terminal management\<close>

definition getTerminals :: "localStorage \<Rightarrow> Terminal list" where
  "getTerminals st = (case getItem st TERMINALS of Some (JTerminals ts) \<Rightarrow> ts | _ \<Rightarrow> [])"

definition getTerminalById :: "localStorage \<Rightarrow> string \<Rightarrow> Terminal option" where
  "getTerminalById st ident = find (\<lambda>terminal. terminal_id terminal = ident) (getTerminals st)"

text \<open>\<open>user.assignedTerminals?.includes(terminal.id)\<close> is \<open>undefined\<close>, which the filter
  reads as false, when the user has no \<open>assignedTerminals\<close>.\<close>

definition getTerminalsByUser :: "localStorage \<Rightarrow> string \<Rightarrow> Terminal list" where
  "getTerminalsByUser st userId =
     (case getUserById st userId of
        None \<Rightarrow> getTerminals st
      | Some user \<Rightarrow>
          if role user \<noteq> Merchant then getTerminals st
          else filter (\<lambda>terminal.
                 case assignedTerminals user of
                   None \<Rightarrow> False
                 | Some assigned \<Rightarrow> terminal_id terminal \<in> set assigned)
               (getTerminals st))"

definition updateTerminal ::
  "string \<Rightarrow> TerminalField list \<Rightarrow> date \<Rightarrow> localStorage \<Rightarrow> Terminal option \<times> localStorage"
  where
  "updateTerminal ident updates now st =
     (let terminals = getTerminals st in
      case findIndex (\<lambda>terminal. terminal_id terminal = ident) terminals of
        None \<Rightarrow> (None, st)
      | Some index \<Rightarrow>
          (let terminals' = terminals[index := (spreadTerminal (terminals ! index) updates)
                                                  \<lparr>terminal_updatedAt := now\<rparr>]
           in (Some (terminals' ! index), setItem TERMINALS (JTerminals terminals') st)))"

text \<open>\<open>t_seen\<close> is the \<open>new Date()\<close> of the \<open>lastSeen\<close> property, \<open>now\<close> the one of
  \<open>updateTerminal\<close>.\<close>

definition updateTerminalStatus ::
  "string \<Rightarrow> TerminalStatus \<Rightarrow> date \<Rightarrow> date \<Rightarrow> localStorage \<Rightarrow> bool \<times> localStorage" where
  "updateTerminalStatus ident status t_seen now st =
     (let (terminal, st') = updateTerminal ident [T_status status, T_lastSeen t_seen] now st
      in (terminal \<noteq> None, st'))"

subsection \<open>Support tickets\<close>

definition getTickets :: "localStorage \<Rightarrow> SupportTicket list" where
  "getTickets st = (case getItem st TICKETS of Some (JTickets ks) \<Rightarrow> ks | _ \<Rightarrow> [])"

definition getTicketsByUser :: "localStorage \<Rightarrow> string \<Rightarrow> SupportTicket list" where
  "getTicketsByUser st userId =
     (case getUserById st userId of
        None \<Rightarrow> []
      | Some user \<Rightarrow>
          if role user = Merchant then
            (let userTerminals = (case assignedTerminals user of None \<Rightarrow> [] | Some a \<Rightarrow> a)
             in filter (\<lambda>ticket. terminalId ticket \<in> set userTerminals) (getTickets st))
          else getTickets st)"

text \<open>\<open>rnd\<close> is the text \<open>Math.random().toString(36).substr(2, 6).toUpperCase()\<close>.\<close>

definition createTicket ::
  "SupportTicket \<Rightarrow> date \<Rightarrow> string \<Rightarrow> date \<Rightarrow> date \<Rightarrow> localStorage
     \<Rightarrow> SupportTicket \<times> localStorage" where
  "createTicket ticketData t_id rnd t_created t_updated st =
     (let tickets = getTickets st;
          newTicket = ticketData\<lparr>ticket_id := ''TKT-'' @ decimal t_id @ ''-'' @ rnd,
                                 ticket_createdAt := t_created, ticket_updatedAt := t_updated\<rparr>
      in (newTicket, setItem TICKETS (JTickets (tickets @ [newTicket])) st))"

definition updateTicket ::
  "string \<Rightarrow> TicketField list \<Rightarrow> date \<Rightarrow> localStorage \<Rightarrow> SupportTicket option \<times> localStorage"
  where
  "updateTicket ident updates now st =
     (let tickets = getTickets st in
      case findIndex (\<lambda>ticket. ticket_id ticket = ident) tickets of
        None \<Rightarrow> (None, st)
      | Some index \<Rightarrow>
          (let tickets' = tickets[index := (spreadTicket (tickets ! index) updates)
                                              \<lparr>ticket_updatedAt := now\<rparr>]
           in (Some (tickets' ! index), setItem TICKETS (JTickets tickets') st)))"

subsection \<open>System alerts and performance metrics\<close>

definition getAlerts :: "localStorage \<Rightarrow> SystemAlert list" where
  "getAlerts st = (case getItem st ALERTS of Some (JAlerts as) \<Rightarrow> as | _ \<Rightarrow> [])"

definition createAlert ::
  "SystemAlert \<Rightarrow> date \<Rightarrow> string \<Rightarrow> date \<Rightarrow> localStorage \<Rightarrow> SystemAlert \<times> localStorage" where
  "createAlert alertData t_id rnd t_created st =
     (let alerts = getAlerts st;
          newAlert = alertData\<lparr>alert_id := ''alert-'' @ decimal t_id @ ''-'' @ rnd,
                               alert_createdAt := t_created\<rparr>
      in (newAlert, setItem ALERTS (JAlerts (alerts @ [newAlert])) st))"

definition getMetrics :: "localStorage \<Rightarrow> PerformanceMetrics list" where
  "getMetrics st = (case getItem st METRICS of Some (JMetrics ms) \<Rightarrow> ms | _ \<Rightarrow> [])"


subsection \<open>Sample data and initialisation\<close>

text \<open>
  The sample generators read the clock, the local time zone and \<open>Math.random\<close>; what
  they read is their environment:
  \<^item> \<open>localTime w\<close> is the time value of \<open>new Date(s)\<close> for a date-time string \<open>s\<close>
    without a zone, where \<open>w\<close> is the time value \<open>s\<close> would have in UTC (a date-only
    string such as \<open>'2025-01-01'\<close> is UTC by itself);
  \<^item> \<open>terminalClock n\<close>, \<open>ticketClock n\<close>, \<open>alertClock n\<close> are the \<open>n\<close>-th reading of
    the clock (\<open>new Date()\<close> or \<open>Date.now()\<close>) in one run of \<open>generateSampleTerminals\<close>,
    \<open>generateSampleTickets\<close>, \<open>generateSampleAlerts\<close>;
  \<^item> \<open>sampleMetrics\<close> is the series that \<open>generateSampleMetrics()\<close> returns, 31 days
    of values drawn by \<open>Math.random\<close>.
\<close>

record seed_env =
  localTime :: "date \<Rightarrow> date"
  terminalClock :: "nat \<Rightarrow> date"
  ticketClock :: "nat \<Rightarrow> date"
  alertClock :: "nat \<Rightarrow> date"
  sampleMetrics :: "PerformanceMetrics list"

definition generateSampleUsers :: "seed_env \<Rightarrow> User list" where
  "generateSampleUsers env =
     [\<lparr>user_id = ''user-admin-001'', fullName = ''Tendai Mukamuri'',
       username = ''admin.mukamuri'', email = ''admin.mukamuri@stanbic.co.zw'',
       password = ''admin123'', role = Administrator, user_status = Active,
       failedLoginAttempts = 0, lastLogin = Some (localTime env 1756926313000),
       user_createdAt = 1735689600000, user_updatedAt = localTime env 1756926313000,
       assignedTerminals = None, permissions = None\<rparr>,
      \<lparr>user_id = ''user-support-001'', fullName = ''Chipo Nhongo'',
       username = ''support.nhongo'', email = ''support.nhongo@stanbic.co.zw'',
       password = ''support123'', role = SupportAgent, user_status = Active,
       failedLoginAttempts = 0, lastLogin = Some (localTime env 1756129915000),
       user_createdAt = 1735689600000, user_updatedAt = localTime env 1756129915000,
       assignedTerminals = None, permissions = None\<rparr>,
      \<lparr>user_id = ''user-manager-001'', fullName = ''Sarah Chigumba'',
       username = ''servicedesk.manager'', email = ''servicedesk.manager@stanbic.co.zw'',
       password = ''manager123'', role = ServiceDeskManager, user_status = Active,
       failedLoginAttempts = 0, lastLogin = Some (localTime env 1756926886000),
       user_createdAt = 1735689600000, user_updatedAt = localTime env 1756926886000,
       assignedTerminals = None, permissions = None\<rparr>,
      \<lparr>user_id = ''user-merchant-001'', fullName = ''Tafadzwa Mutasa'',
       username = ''merchant.mutasa'', email = ''merchant.mutasa@stanbic.co.zw'',
       password = ''merchant123'', role = Merchant, user_status = Active,
       failedLoginAttempts = 0, lastLogin = Some (localTime env 1755987430000),
       user_createdAt = 1735689600000, user_updatedAt = localTime env 1755987430000,
       assignedTerminals = Some [''T001''], permissions = None\<rparr>]"

definition generateSampleTerminals :: "seed_env \<Rightarrow> Terminal list" where
  "generateSampleTerminals env =
     (let clk = terminalClock env in
      [\<lparr>terminal_id = ''T001'', location = ''Harare CBD'', merchant = ''Pick n Pay'',
        terminal_status = Online, lastSeen = clk 0,
        coordinates = \<lparr>lat = - 17.8292, lng = 31.0522\<rparr>,
        model = None, serialNumber = None, firmwareVersion = None, networkType = None,
        uptime = 100, transactionsToday = 45, lastTransaction = Some (clk 1),
        lastMaintenance = None, nextMaintenance = None,
        terminal_createdAt = 1735689600000, terminal_updatedAt = clk 2\<rparr>,
       \<lparr>terminal_id = ''T002'', location = ''Bulawayo City'', merchant = ''Ushe Manhuna'',
        terminal_status = Online, lastSeen = clk 3 - 9 * 60000,
        coordinates = \<lparr>lat = - 20.1594, lng = 28.5906\<rparr>,
        model = None, serialNumber = None, firmwareVersion = None, networkType = None,
        uptime = 98.5, transactionsToday = 32, lastTransaction = Some (clk 4 - 30 * 60000),
        lastMaintenance = None, nextMaintenance = None,
        terminal_createdAt = 1735689600000, terminal_updatedAt = clk 5\<rparr>,
       \<lparr>terminal_id = ''T003'', location = ''Mutare Center'', merchant = ''Ushe Manhuna'',
        terminal_status = Offline, lastSeen = clk 6 - 2 * 60 * 60000,
        coordinates = \<lparr>lat = - 18.9707, lng = 32.6473\<rparr>,
        model = None, serialNumber = None, firmwareVersion = None, networkType = None,
        uptime = 85.2, transactionsToday = 0,
        lastTransaction = Some (clk 7 - 3 * 60 * 60000),
        lastMaintenance = None, nextMaintenance = None,
        terminal_createdAt = 1735689600000, terminal_updatedAt = clk 8\<rparr>,
       \<lparr>terminal_id = ''T004'', location = ''Gweru Main'', merchant = ''Choppies'',
        terminal_status = Maintenance, lastSeen = clk 9 - 34 * 60000,
        coordinates = \<lparr>lat = - 19.4543, lng = 29.8154\<rparr>,
        model = None, serialNumber = None, firmwareVersion = None, networkType = None,
        uptime = 92.1, transactionsToday = 15, lastTransaction = Some (clk 10 - 60 * 60000),
        lastMaintenance = None, nextMaintenance = None,
        terminal_createdAt = 1735689600000, terminal_updatedAt = clk 11\<rparr>,
       \<lparr>terminal_id = ''T005'', location = ''Masvingo Plaza'', merchant = ''Food World'',
        terminal_status = Online, lastSeen = clk 12 - 5 * 60000,
        coordinates = \<lparr>lat = - 20.0716, lng = 30.8272\<rparr>,
        model = None, serialNumber = None, firmwareVersion = None, networkType = None,
        uptime = 96.8, transactionsToday = 28, lastTransaction = Some (clk 13 - 15 * 60000),
        lastMaintenance = None, nextMaintenance = None,
        terminal_createdAt = 1735689600000, terminal_updatedAt = clk 14\<rparr>])"

definition generateSampleTickets :: "seed_env \<Rightarrow> SupportTicket list" where
  "generateSampleTickets env =
     (let clk = ticketClock env in
      [\<lparr>ticket_id = ''TKT-2025-001'', title = ''Terminal Offline - Pick n Pay Borrowdale'',
        description = ''Terminal T001 has been offline for over 2 hours'',
        terminalId = ''T001'', priority = High, ticket_status = Open, source = Src_System,
        reportedBy = ''user-admin-001'', assignedTo = Some ''user-support-001'',
        ticket_createdAt = clk 0 - 10 * 24 * 60 * 60000,
        ticket_updatedAt = clk 1 - 10 * 24 * 60 * 60000,
        resolvedAt = None,
        slaTarget = clk 2 - 10 * 24 * 60 * 60000 + 4 * 60 * 60000,
        slaBreach = True, slaBreachDuration = 259 * 60,
        resolution = None, resolutionTime = None, satisfactionRating = None,
        feedback = None\<rparr>])"

definition generateSampleAlerts :: "seed_env \<Rightarrow> SystemAlert list" where
  "generateSampleAlerts env =
     [\<lparr>alert_id = ''alert-001'', alert_type = TerminalDown,
       message = ''Terminal T003 (Mutare Center) has been offline for 2 hours'',
       severity = Sev_High, alert_terminalId = Some ''T003'', alert_ticketId = None,
       acknowledged = False, acknowledgedBy = None,
       alert_createdAt = alertClock env 0 - 2 * 60 * 60000, acknowledgedAt = None\<rparr>]"

definition generateSampleMetrics :: "seed_env \<Rightarrow> PerformanceMetrics list" where
  "generateSampleMetrics env = sampleMetrics env"

text \<open>\<open>!this.getItem(key)\<close> holds when the key is absent (a stored array or object is
  truthy, also when empty).\<close>

definition initializeData :: "seed_env \<Rightarrow> localStorage \<Rightarrow> localStorage" where
  "initializeData env st0 =
     (let st1 = (if getItem st0 USERS = None
                 then setItem USERS (JUsers (generateSampleUsers env)) st0 else st0);
          st2 = (if getItem st1 TERMINALS = None
                 then setItem TERMINALS (JTerminals (generateSampleTerminals env)) st1 else st1);
          st3 = (if getItem st2 TICKETS = None
                 then setItem TICKETS (JTickets (generateSampleTickets env)) st2 else st2);
          st4 = (if getItem st3 ALERTS = None
                 then setItem ALERTS (JAlerts (generateSampleAlerts env)) st3 else st3);
          st5 = (if getItem st4 METRICS = None
                 then setItem METRICS (JMetrics (generateSampleMetrics env)) st4 else st4)
      in st5)"

definition clearAllData :: "seed_env \<Rightarrow> localStorage \<Rightarrow> localStorage" where
  "clearAllData env st = initializeData env (fold removeItem STORAGE_KEYS st)"

section \<open>The authentication context\<close>

record AuthState =
  currentUser :: "User option"
  loading :: bool
  error :: "string option"

datatype AuthAction =
  LOGIN_START
| LOGIN_SUCCESS User
| LOGIN_FAILURE string
| LOGOUT
| UPDATE_USER User
| CLEAR_ERROR

fun authReducer :: "AuthState \<Rightarrow> AuthAction \<Rightarrow> AuthState" where
  "authReducer state LOGIN_START = state\<lparr>loading := True, error := None\<rparr>"
| "authReducer state (LOGIN_SUCCESS payload) =
     state\<lparr>currentUser := Some payload, loading := False, error := None\<rparr>"
| "authReducer state (LOGIN_FAILURE payload) =
     state\<lparr>currentUser := None, loading := False, error := Some payload\<rparr>"
| "authReducer state LOGOUT = state\<lparr>currentUser := None, loading := False, error := None\<rparr>"
| "authReducer state (UPDATE_USER payload) = state\<lparr>currentUser := Some payload\<rparr>"
| "authReducer state CLEAR_ERROR = state\<lparr>error := None\<rparr>"

definition initialState :: AuthState where
  "initialState = \<lparr>currentUser = None, loading = False, error = None\<rparr>"

text \<open>\<open>ROLE_PERMISSIONS\<close>, keyed by the role (the constructor stands for the role's
  string).\<close>

definition ROLE_PERMISSIONS :: "(UserRole \<times> string list) list" where
  "ROLE_PERMISSIONS =
     [(Administrator,
         [''view_all_terminals'', ''manage_terminals'', ''view_all_tickets'',
          ''manage_tickets'', ''view_analytics'', ''generate_reports'', ''manage_users'',
          ''system_admin'']),
      (ServiceDeskManager,
         [''view_all_terminals'', ''view_all_tickets'', ''manage_tickets'',
          ''view_analytics'', ''generate_reports'', ''manage_users'']),
      (SupportAgent,
         [''view_all_terminals'', ''manage_terminals'', ''view_all_tickets'',
          ''manage_tickets'', ''view_analytics'', ''generate_reports'']),
      (Merchant,
         [''view_own_terminals'', ''view_own_tickets'', ''create_tickets'',
          ''view_own_analytics''])]"

text \<open>
  The provider's functions read the reducer's state and call the storage service; the
  state of the application is the pair of both. \<open>login\<close> is \<open>async\<close> but awaits nothing:
  it runs to its end in one turn. Its \<open>try\<close> block guards the calls of the service,
  which throw nothing on a well-shaped store, so the \<open>catch\<close> branch has no run here.
  \<open>t1\<close> and \<open>t2\<close> are the readings of the clock, in the order the call takes them: on a
  wrong password the \<open>new Date()\<close> of the first and of the second \<open>updateUser\<close>, on a
  right one the \<open>new Date()\<close> of \<open>lastLogin\<close> and the one of \<open>updateUser\<close>.
\<close>

definition login ::
  "string \<Rightarrow> string \<Rightarrow> date \<Rightarrow> date \<Rightarrow> AuthState \<times> localStorage
     \<Rightarrow> bool \<times> AuthState \<times> localStorage" where
  "login name pw t1 t2 app =
     (let (state0, st) = app;
          state = authReducer state0 LOGIN_START in
      case getUserByUsername st name of
        None \<Rightarrow> (False, authReducer state (LOGIN_FAILURE ''User not found''), st)
      | Some user \<Rightarrow>
          if user_status user = Locked then
            (False,
             authReducer state (LOGIN_FAILURE ''Account is locked. Contact administrator.''),
             st)
          else if password user \<noteq> pw then
            (let (updatedUser, st1) =
                   updateUser (user_id user)
                     [U_failedLoginAttempts (failedLoginAttempts user + 1)] t1 st
             in case updatedUser of
                  Some uu \<Rightarrow>
                    if failedLoginAttempts uu \<ge> 3 then
                      (let (_, st2) = updateUser (user_id user) [U_status Locked] t2 st1
                       in (False,
                           authReducer state (LOGIN_FAILURE
                             ''Account locked due to multiple failed login attempts.''),
                           st2))
                    else (False, authReducer state (LOGIN_FAILURE ''Invalid password''), st1)
                | None \<Rightarrow>
                    (False, authReducer state (LOGIN_FAILURE ''Invalid password''), st1))
          else
            (let (updatedUser, st1) =
                   updateUser (user_id user)
                     [U_lastLogin (Some t1), U_failedLoginAttempts 0] t2 st
             in case updatedUser of
                  Some uu \<Rightarrow>
                    (True, authReducer state (LOGIN_SUCCESS uu), setCurrentUser (Some uu) st1)
                | None \<Rightarrow> (False, authReducer state (LOGIN_FAILURE ''Login failed''), st1)))"

definition logout :: "AuthState \<times> localStorage \<Rightarrow> AuthState \<times> localStorage" where
  "logout app = (let (state, st) = app in (authReducer state LOGOUT, setCurrentUser None st))"

definition hasPermission :: "AuthState \<Rightarrow> string \<Rightarrow> bool" where
  "hasPermission state permission =
     (case currentUser state of
        None \<Rightarrow> False
      | Some cu \<Rightarrow>
          (let rolePermissions =
                 (case map_of ROLE_PERMISSIONS (role cu) of Some ps \<Rightarrow> ps | None \<Rightarrow> [])
           in permission \<in> set rolePermissions))"

definition updateCurrentUser ::
  "UserField list \<Rightarrow> date \<Rightarrow> AuthState \<times> localStorage \<Rightarrow> AuthState \<times> localStorage" where
  "updateCurrentUser updates now app =
     (let (state, st) = app in
      case currentUser state of
        None \<Rightarrow> (state, st)
      | Some cu \<Rightarrow>
          (let (updatedUser, st1) = updateUser (user_id cu) updates now st
           in case updatedUser of
                Some uu \<Rightarrow> (authReducer state (UPDATE_USER uu), setCurrentUser (Some uu) st1)
              | None \<Rightarrow> (state, st1)))"

definition clearError :: "AuthState \<Rightarrow> AuthState" where
  "clearError state = authReducer state CLEAR_ERROR"

definition isAdmin :: "AuthState \<Rightarrow> bool" where
  "isAdmin state = (map_option role (currentUser state) = Some Administrator)"

definition isManager :: "AuthState \<Rightarrow> bool" where
  "isManager state = (map_option role (currentUser state) = Some ServiceDeskManager)"

definition isSupport :: "AuthState \<Rightarrow> bool" where
  "isSupport state = (map_option role (currentUser state) = Some SupportAgent)"

definition isMerchant :: "AuthState \<Rightarrow> bool" where
  "isMerchant state = (map_option role (currentUser state) = Some Merchant)"

definition getAccessibleTerminals :: "AuthState \<Rightarrow> localStorage \<Rightarrow> Terminal list" where
  "getAccessibleTerminals state st =
     (case currentUser state of
        None \<Rightarrow> []
      | Some cu \<Rightarrow>
          if role cu = Merchant then getTerminalsByUser st (user_id cu)
          else getTerminals st)"

definition getAccessibleTickets :: "AuthState \<Rightarrow> localStorage \<Rightarrow> SupportTicket list" where
  "getAccessibleTickets state st =
     (case currentUser state of
        None \<Rightarrow> []
      | Some cu \<Rightarrow> getTicketsByUser st (user_id cu))"

section \<open>Vocabulary of the statements\<close>

text \<open>Every coming write is accepted by the browser.\<close>

definition persists :: "localStorage \<Rightarrow> bool" where
  "persists st \<longleftrightarrow> True \<notin> set (faults st)"

text \<open>The store after a write that threw: the items as they were, the fault consumed,
  the error on the console.\<close>

definition refused :: "localStorage \<Rightarrow> bool list \<Rightarrow> localStorage" where
  "refused st fs = st\<lparr>faults := fs, console := console st @ [''Error saving to localStorage:'']\<rparr>"

text \<open>The record \<open>u\<close> is at index \<open>i\<close> of the stored users and is the first one with
  its username and the first one with its id.\<close>

definition user_at :: "localStorage \<Rightarrow> nat \<Rightarrow> User \<Rightarrow> bool" where
  "user_at st i u \<longleftrightarrow>
     findIndex (\<lambda>x. username x = username u) (getUsers st) = Some i \<and>
     findIndex (\<lambda>x. user_id x = user_id u) (getUsers st) = Some i \<and>
     getUsers st ! i = u"

text \<open>The terminal ids assigned to a user, none when the property is absent.\<close>

definition assigned_ids :: "User \<Rightarrow> string list" where
  "assigned_ids u = (case assignedTerminals u of None \<Rightarrow> [] | Some a \<Rightarrow> a)"

text \<open>The six keys that hold data: one for each collection and the session slot.\<close>

definition data_keys :: "string list" where
  "data_keys = [USERS, TERMINALS, TICKETS, ALERTS, METRICS, CURRENT_USER]"

text \<open>The public methods of the service and its constructor (which runs
  \<open>initializeData\<close>), as calls with their arguments and clock readings, and the value a
  call returns.\<close>

datatype store_call =
  Call_initializeData seed_env
| Call_getUsers
| Call_getUserById string
| Call_getUserByUsername string
| Call_createUser User date string date date
| Call_updateUser string "UserField list" date
| Call_deleteUser string
| Call_getCurrentUser
| Call_setCurrentUser "User option"
| Call_getTerminals
| Call_getTerminalById string
| Call_getTerminalsByUser string
| Call_updateTerminal string "TerminalField list" date
| Call_updateTerminalStatus string TerminalStatus date date
| Call_getTickets
| Call_getTicketsByUser string
| Call_createTicket SupportTicket date string date date
| Call_updateTicket string "TicketField list" date
| Call_getAlerts
| Call_createAlert SystemAlert date string date
| Call_getMetrics
| Call_clearAllData seed_env

datatype store_result =
  R_void
| R_bool bool
| R_users "User list"
| R_user "User option"
| R_terminals "Terminal list"
| R_terminal "Terminal option"
| R_tickets "SupportTicket list"
| R_ticket "SupportTicket option"
| R_alerts "SystemAlert list"
| R_alert SystemAlert
| R_metrics "PerformanceMetrics list"

fun perform :: "store_call \<Rightarrow> localStorage \<Rightarrow> store_result \<times> localStorage" where
  "perform (Call_initializeData env) st = (R_void, initializeData env st)"
| "perform Call_getUsers st = (R_users (getUsers st), st)"
| "perform (Call_getUserById i) st = (R_user (getUserById st i), st)"
| "perform (Call_getUserByUsername n) st = (R_user (getUserByUsername st n), st)"
| "perform (Call_createUser d t r tc tu) st =
     (let (u, st') = createUser d t r tc tu st in (R_user (Some u), st'))"
| "perform (Call_updateUser i upd now) st =
     (let (u, st') = updateUser i upd now st in (R_user u, st'))"
| "perform (Call_deleteUser i) st = (let (b, st') = deleteUser i st in (R_bool b, st'))"
| "perform Call_getCurrentUser st = (R_user (getCurrentUser st), st)"
| "perform (Call_setCurrentUser u) st = (R_void, setCurrentUser u st)"
| "perform Call_getTerminals st = (R_terminals (getTerminals st), st)"
| "perform (Call_getTerminalById i) st = (R_terminal (getTerminalById st i), st)"
| "perform (Call_getTerminalsByUser i) st = (R_terminals (getTerminalsByUser st i), st)"
| "perform (Call_updateTerminal i upd now) st =
     (let (t, st') = updateTerminal i upd now st in (R_terminal t, st'))"
| "perform (Call_updateTerminalStatus i s ts now) st =
     (let (b, st') = updateTerminalStatus i s ts now st in (R_bool b, st'))"
| "perform Call_getTickets st = (R_tickets (getTickets st), st)"
| "perform (Call_getTicketsByUser i) st = (R_tickets (getTicketsByUser st i), st)"
| "perform (Call_createTicket d t r tc tu) st =
     (let (k, st') = createTicket d t r tc tu st in (R_ticket (Some k), st'))"
| "perform (Call_updateTicket i upd now) st =
     (let (k, st') = updateTicket i upd now st in (R_ticket k, st'))"
| "perform Call_getAlerts st = (R_alerts (getAlerts st), st)"
| "perform (Call_createAlert d t r tc) st =
     (let (a, st') = createAlert d t r tc st in (R_alert a, st'))"
| "perform Call_getMetrics st = (R_metrics (getMetrics st), st)"
| "perform (Call_clearAllData env) st = (R_void, clearAllData env st)"

text \<open>Two stores hold the same entries under the six data keys and meet the same
  coming faults.\<close>

definition same_data :: "localStorage \<Rightarrow> localStorage \<Rightarrow> bool" where
  "same_data st st' \<longleftrightarrow>
     (\<forall>key \<in> set data_keys. items st key = items st' key) \<and> faults st = faults st'"

section \<open>A concrete deployment\<close>

text \<open>A browser two hours east of UTC whose clock advances by a millisecond per reading,
  with an empty storage that the service seeds on its first use, on 2 November 2025.
  The metrics are a series as \<open>generateSampleMetrics\<close> draws it: 31 days, the oldest
  first, every value in the range of its \<open>Math.random\<close> expression.\<close>

definition sample_dates :: "string list" where
  "sample_dates =
     [''2025-10-03'', ''2025-10-04'', ''2025-10-05'', ''2025-10-06'', ''2025-10-07'',
      ''2025-10-08'', ''2025-10-09'', ''2025-10-10'', ''2025-10-11'', ''2025-10-12'',
      ''2025-10-13'', ''2025-10-14'', ''2025-10-15'', ''2025-10-16'', ''2025-10-17'',
      ''2025-10-18'', ''2025-10-19'', ''2025-10-20'', ''2025-10-21'', ''2025-10-22'',
      ''2025-10-23'', ''2025-10-24'', ''2025-10-25'', ''2025-10-26'', ''2025-10-27'',
      ''2025-10-28'', ''2025-10-29'', ''2025-10-30'', ''2025-10-31'', ''2025-11-01'',
      ''2025-11-02'']"

definition sample_metrics_series :: "PerformanceMetrics list" where
  "sample_metrics_series =
     map (\<lambda>n. \<lparr>pm_date = sample_dates ! n, totalTerminals = 20,
                  onlineTerminals = 12 + int (n mod 8),
                  offlineTerminals = int (n mod 4),
                  maintenanceTerminals = int (n mod 3),
                  errorTerminals = int ((n + 1) mod 3),
                  averageUptime = 80 + real (n mod 20),
                  totalTickets = 5 + int (n mod 15),
                  openTickets = 2 + int (n mod 8),
                  resolvedTickets = 3 + int (n mod 10),
                  averageResolutionTime = 60 + real (7 * n),
                  slaCompliance = 85 + real (n mod 15),
                  customerSatisfaction = 4 + real (n mod 10) / 10\<rparr>)
       [0..<31]"

definition env0 :: seed_env where
  "env0 = \<lparr>localTime = (\<lambda>w. w - 7200000),
            terminalClock = (\<lambda>n. 1762041600000 + int n),
            ticketClock = (\<lambda>n. 1762041600020 + int n),
            alertClock = (\<lambda>n. 1762041600030 + int n),
            sampleMetrics = sample_metrics_series\<rparr>"

definition empty_storage :: localStorage where
  "empty_storage = \<lparr>items = Map.empty, faults = [], console = []\<rparr>"

definition seeded :: localStorage where
  "seeded = initializeData env0 empty_storage"

definition sample_admin :: User where
  "sample_admin = generateSampleUsers env0 ! 0"

definition sample_support :: User where
  "sample_support = generateSampleUsers env0 ! 1"

definition sample_manager :: User where
  "sample_manager = generateSampleUsers env0 ! 2"

definition sample_merchant :: User where
  "sample_merchant = generateSampleUsers env0 ! 3"

text \<open>Three logins of the administrator with wrong passwords, then one with the right
  one.\<close>

definition attempt1 :: "bool \<times> AuthState \<times> localStorage" where
  "attempt1 =
     login ''admin.mukamuri'' ''wrong'' 1762041700000 1762041700001 (initialState, seeded)"

definition attempt2 :: "bool \<times> AuthState \<times> localStorage" where
  "attempt2 = login ''admin.mukamuri'' ''admin'' 1762041710000 1762041710001 (snd attempt1)"

definition attempt3 :: "bool \<times> AuthState \<times> localStorage" where
  "attempt3 = login ''admin.mukamuri'' ''Admin123'' 1762041720000 1762041720001 (snd attempt2)"

definition attempt4 :: "bool \<times> AuthState \<times> localStorage" where
  "attempt4 = login ''admin.mukamuri'' ''admin123'' 1762041730000 1762041730001 (snd attempt3)"

text \<open>The administrator after two failed attempts, and the login with the right password
  that follows them.\<close>

definition admin_twice_failed :: User where
  "admin_twice_failed =
     sample_admin\<lparr>failedLoginAttempts := 2, user_updatedAt := 1762041710000\<rparr>"

definition recovery :: "bool \<times> AuthState \<times> localStorage" where
  "recovery = login ''admin.mukamuri'' ''admin123'' 1762041740000 1762041740001 (snd attempt2)"

text \<open>The merchant logs in; later the merchant's record is deleted from the stored users
  (from another tab, which shares the storage) while the session lives on.\<close>

definition merchant_login :: "bool \<times> AuthState \<times> localStorage" where
  "merchant_login =
     login ''merchant.mutasa'' ''merchant123'' 1762041800000 1762041800001
       (initialState, seeded)"

definition merchant_session :: AuthState where
  "merchant_session = fst (snd merchant_login)"

definition merchant_store :: localStorage where
  "merchant_store = snd (snd merchant_login)"

definition merchant_logged_in :: User where
  "merchant_logged_in =
     sample_merchant\<lparr>lastLogin := Some 1762041800000, failedLoginAttempts := 0,
                      user_updatedAt := 1762041800001\<rparr>"

text \<open>While the merchant's session lives on, a ticket for another terminal is created
  and the merchant's stored record is edited to the role Support Agent (the edit form of
  the user management page sends name, username, email, role and status).\<close>

definition second_ticket :: SupportTicket where
  "second_ticket =
     \<lparr>ticket_id = [], title = ''Card reader fault'',
      description = ''Terminal T002 rejects every card'', terminalId = ''T002'',
      priority = Medium, ticket_status = Open, source = Src_CustomerCall,
      reportedBy = ''user-support-001'', assignedTo = None,
      ticket_createdAt = 0, ticket_updatedAt = 0, resolvedAt = None,
      slaTarget = 1762056240000, slaBreach = False, slaBreachDuration = 0,
      resolution = None, resolutionTime = None, satisfactionRating = None,
      feedback = None\<rparr>"

definition reassigned_store :: localStorage where
  "reassigned_store =
     snd (updateUser ''user-merchant-001''
            [U_fullName ''Tafadzwa Mutasa'', U_username ''merchant.mutasa'',
             U_email ''merchant.mutasa@stanbic.co.zw'', U_role SupportAgent,
             U_status Active]
            1762041850000
            (snd (createTicket second_ticket 1762041840000 ''K3X9QA'' 1762041840000
                    1762041840001 merchant_store)))"

definition orphan_store :: localStorage where
  "orphan_store = snd (deleteUser ''user-merchant-001'' merchant_store)"

text \<open>The administrator logs in; then the administrator's record is deleted from the
  stored users in the same way.\<close>

definition admin_login :: "bool \<times> AuthState \<times> localStorage" where
  "admin_login =
     login ''admin.mukamuri'' ''admin123'' 1762041900000 1762041900001 (initialState, seeded)"

definition admin_session :: AuthState where
  "admin_session = fst (snd admin_login)"

definition admin_deleted_store :: localStorage where
  "admin_deleted_store = snd (deleteUser ''user-admin-001'' (snd (snd admin_login)))"

text \<open>A seeded storage that also holds an entry under the comments key.\<close>

definition legacy_store :: localStorage where
  "legacy_store = seeded\<lparr>items := (items seeded)(COMMENTS \<mapsto> JText ''[]'')\<rparr>"

text \<open>The same with an entry of another application of the origin.\<close>

definition foreign_store :: localStorage where
  "foreign_store = legacy_store\<lparr>items := (items legacy_store)(''theme'' \<mapsto> JText ''dark'')\<rparr>"

text \<open>A session of each role, and none.\<close>

definition session_of :: "User \<Rightarrow> AuthState" where
  "session_of u = authReducer initialState (LOGIN_SUCCESS u)"

section \<open>Lists: the first match and its index\<close>

lemmas key_defs =
  USERS_def TERMINALS_def TICKETS_def COMMENTS_def ALERTS_def METRICS_def CURRENT_USER_def

lemma findIndex_Some:
  "findIndex P xs = Some i \<Longrightarrow> i < length xs \<and> P (xs ! i) \<and> (\<forall>j<i. \<not> P (xs ! j))"
proof (induction xs arbitrary: i)
  case Nil
  then show ?case by simp
next
  case (Cons x xs)
  show ?case
  proof (cases "P x")
    case True
    with Cons.prems show ?thesis by simp
  next
    case False
    with Cons.prems obtain k where k: "findIndex P xs = Some k" "i = Suc k"
      by auto
    from Cons.IH[OF k(1)] False k(2) show ?thesis
      by (auto simp: nth_Cons split: nat.splits)
  qed
qed

lemma find_findIndex:
  "find P xs = Some x \<Longrightarrow> \<exists>i. findIndex P xs = Some i \<and> xs ! i = x"
  by (induction xs) (auto split: if_splits)

lemma findIndex_find:
  "findIndex P xs = Some i \<Longrightarrow> find P xs = Some (xs ! i)"
  by (induction xs arbitrary: i) (auto split: if_splits)

lemma findIndex_update:
  "findIndex P xs = Some i \<Longrightarrow> P y \<Longrightarrow> findIndex P (xs[i := y]) = Some i"
proof (induction xs arbitrary: i)
  case Nil
  then show ?case by simp
next
  case (Cons x xs)
  then show ?case by (cases "P x") (auto split: nat.splits)
qed

lemma find_Some_holds: "find P xs = Some x \<Longrightarrow> P x"
  by (induction xs) (auto split: if_splits)

lemma find_same_findIndex_same:
  "find P xs = Some x \<Longrightarrow> find Q xs = Some x \<Longrightarrow> findIndex P xs = findIndex Q xs"
proof (induction xs)
  case Nil
  then show ?case by simp
next
  case (Cons a xs)
  have Px: "P x" using Cons.prems(1) by (rule find_Some_holds)
  have Qx: "Q x" using Cons.prems(2) by (rule find_Some_holds)
  show ?case
  proof (cases "P a \<or> Q a")
    case True
    then have "x = a" using Cons.prems by (auto split: if_splits)
    with Px Qx show ?thesis by simp
  next
    case False
    with Cons show ?thesis by simp
  qed
qed

section \<open>Writes and reads of the storage\<close>

lemma setItem_persists:
  "persists st \<Longrightarrow>
     setItem key data st = st\<lparr>items := (items st)(key \<mapsto> data), faults := tl (faults st)\<rparr>"
  by (cases "faults st") (auto simp: setItem_def persists_def split: list.splits bool.splits)

lemma persists_setItem: "persists st \<Longrightarrow> persists (setItem key data st)"
  by (cases "faults st") (auto simp: setItem_def persists_def split: list.splits bool.splits)

lemma setItem_refused: "setItem key data (st\<lparr>faults := True # fs\<rparr>) = refused st fs"
  by (simp add: setItem_def refused_def)

lemma well_shaped_setItem_users:
  "well_shaped st \<Longrightarrow> well_shaped (setItem USERS (JUsers us) st)"
  by (auto simp: well_shaped_def setItem_def key_defs split: list.splits bool.splits)

lemma items_setItem_other:
  "k \<noteq> key \<Longrightarrow> items (setItem key data st) k = items st k"
  by (auto simp: setItem_def split: list.splits bool.splits)

lemma items_removeItem_other:
  "k \<noteq> key \<Longrightarrow> items (removeItem key st) k = items st k"
  by (simp add: removeItem_def)

lemma getUsers_setItem:
  "persists st \<Longrightarrow> getUsers (setItem USERS (JUsers us) st) = us"
  by (simp add: setItem_persists getUsers_def getItem_def)

lemma getUsers_setItem_other:
  "key \<noteq> USERS \<Longrightarrow> getUsers (setItem key data st) = getUsers st"
  by (simp add: getUsers_def getItem_def items_setItem_other)

lemma getUsers_setItem_cases:
  "getUsers (setItem USERS (JUsers us) st) = us \<or>
   getUsers (setItem USERS (JUsers us) st) = getUsers st"
  by (auto simp: setItem_def getUsers_def getItem_def split: list.splits bool.splits)

lemma getTerminals_setItem_cases:
  "getTerminals (setItem TERMINALS (JTerminals ts) st) = ts \<or>
   getTerminals (setItem TERMINALS (JTerminals ts) st) = getTerminals st"
  by (auto simp: setItem_def getTerminals_def getItem_def split: list.splits bool.splits)

lemma getTickets_setItem_cases:
  "getTickets (setItem TICKETS (JTickets ks) st) = ks \<or>
   getTickets (setItem TICKETS (JTickets ks) st) = getTickets st"
  by (auto simp: setItem_def getTickets_def getItem_def split: list.splits bool.splits)

lemma reads_faults:
  "getUsers (st\<lparr>faults := fs\<rparr>) = getUsers st"
  "getTerminals (st\<lparr>faults := fs\<rparr>) = getTerminals st"
  "getTickets (st\<lparr>faults := fs\<rparr>) = getTickets st"
  "getAlerts (st\<lparr>faults := fs\<rparr>) = getAlerts st"
  by (simp_all add: getUsers_def getTerminals_def getTickets_def getAlerts_def getItem_def)

section \<open>Updating a user and logging in\<close>

lemma updateUser_found:
  assumes p: "persists st"
    and f: "findIndex (\<lambda>user. user_id user = ident) (getUsers st) = Some i"
  shows "updateUser ident updates now st =
           (Some ((spreadUser (getUsers st ! i) updates)\<lparr>user_updatedAt := now\<rparr>),
            setItem USERS
              (JUsers ((getUsers st)[i := (spreadUser (getUsers st ! i) updates)
                                            \<lparr>user_updatedAt := now\<rparr>])) st)"
  using findIndex_Some[OF f] by (simp add: updateUser_def f Let_def)

lemma user_at_lookup:
  "user_at st i u \<Longrightarrow>
     getUserByUsername st (username u) = Some u \<and> getUserById st (user_id u) = Some u"
  by (auto simp: user_at_def getUserByUsername_def getUserById_def dest: findIndex_find)

lemma lookup_user_at:
  assumes "getUserByUsername st (username u) = Some u" "getUserById st (user_id u) = Some u"
  shows "\<exists>i. user_at st i u"
proof -
  from assms(1) obtain i where
    i: "findIndex (\<lambda>x. username x = username u) (getUsers st) = Some i" "getUsers st ! i = u"
    unfolding getUserByUsername_def by (blast dest: find_findIndex)
  have "findIndex (\<lambda>x. username x = username u) (getUsers st) =
        findIndex (\<lambda>x. user_id x = user_id u) (getUsers st)"
    using assms unfolding getUserByUsername_def getUserById_def
    by (rule find_same_findIndex_same)
  with i show ?thesis by (auto simp: user_at_def)
qed

lemma user_at_update:
  assumes at: "user_at st i u" and p: "persists st"
    and same: "username u' = username u" "user_id u' = user_id u"
  shows "user_at (setItem USERS (JUsers ((getUsers st)[i := u'])) st) i u'"
proof -
  have len: "i < length (getUsers st)"
    using at findIndex_Some unfolding user_at_def by blast
  show ?thesis
    using at len same unfolding user_at_def
    by (simp add: getUsers_setItem[OF p] findIndex_update)
qed

text \<open>One login with a wrong password: the counter of the stored record goes up by one,
  and the record is locked when the counter reaches three.\<close>

lemma login_wrong_password:
  fixes ta tb :: date
  assumes ws: "well_shaped st" and p: "persists st" and at: "user_at st i u"
    and act: "user_status u = Active" and pw: "password u \<noteq> pw"
    and u': "u' = (if failedLoginAttempts u + 1 \<ge> 3
                   then u\<lparr>failedLoginAttempts := failedLoginAttempts u + 1,
                          user_status := Locked, user_updatedAt := tb\<rparr>
                   else u\<lparr>failedLoginAttempts := failedLoginAttempts u + 1,
                          user_updatedAt := ta\<rparr>)"
  shows "\<exists>state' st'. login (username u) pw ta tb (state, st) = (False, state', st') \<and>
           well_shaped st' \<and> persists st' \<and> user_at st' i u'"
proof -
  define v where "v = u\<lparr>failedLoginAttempts := failedLoginAttempts u + 1, user_updatedAt := ta\<rparr>"
  define st1 where "st1 = setItem USERS (JUsers ((getUsers st)[i := v])) st"
  have fi: "findIndex (\<lambda>x. user_id x = user_id u) (getUsers st) = Some i"
    and ui: "getUsers st ! i = u"
    using at by (auto simp: user_at_def)
  have look: "getUserByUsername st (username u) = Some u"
    using user_at_lookup[OF at] by simp
  have up1: "updateUser (user_id u) [U_failedLoginAttempts (failedLoginAttempts u + 1)] ta st
               = (Some v, st1)"
    by (simp add: updateUser_found[OF p fi] ui spreadUser_def v_def st1_def)
  have at1: "user_at st1 i v"
    unfolding st1_def by (rule user_at_update[OF at p]) (simp_all add: v_def)
  have p1: "persists st1" unfolding st1_def by (rule persists_setItem[OF p])
  have ws1: "well_shaped st1" unfolding st1_def by (rule well_shaped_setItem_users[OF ws])
  show ?thesis
  proof (cases "failedLoginAttempts u + 1 \<ge> 3")
    case False
    then have "u' = v" by (simp add: u' v_def)
    moreover have "login (username u) pw ta tb (state, st) =
        (False, authReducer (authReducer state LOGIN_START) (LOGIN_FAILURE ''Invalid password''),
         st1)"
      using False act pw by (simp add: login_def look up1 v_def)
    ultimately show ?thesis using ws1 p1 at1 by blast
  next
    case True
    define w where "w = v\<lparr>user_status := Locked, user_updatedAt := tb\<rparr>"
    define st2 where "st2 = setItem USERS (JUsers ((getUsers st1)[i := w])) st1"
    have fi1: "findIndex (\<lambda>x. user_id x = user_id u) (getUsers st1) = Some i"
      and vi: "getUsers st1 ! i = v"
      using at1 by (auto simp: user_at_def v_def)
    have up2: "updateUser (user_id u) [U_status Locked] tb st1 = (Some w, st2)"
      by (simp add: updateUser_found[OF p1 fi1] vi spreadUser_def w_def st2_def)
    have at2: "user_at st2 i w"
      unfolding st2_def by (rule user_at_update[OF at1 p1]) (simp_all add: w_def)
    have "u' = w" using True by (simp add: u' w_def v_def)
    moreover have "login (username u) pw ta tb (state, st) =
        (False, authReducer (authReducer state LOGIN_START)
           (LOGIN_FAILURE ''Account locked due to multiple failed login attempts.''), st2)"
      using True act pw by (simp add: login_def look up1 up2 v_def)
    moreover have "persists st2" unfolding st2_def by (rule persists_setItem[OF p1])
    moreover have "well_shaped st2"
      unfolding st2_def by (rule well_shaped_setItem_users[OF ws1])
    ultimately show ?thesis using at2 by blast
  qed
qed

lemma login_locked:
  assumes "getUserByUsername st name = Some u" "user_status u = Locked"
  shows "login name pw t1 t2 (state, st) =
           (False,
            authReducer (authReducer state LOGIN_START)
              (LOGIN_FAILURE ''Account is locked. Contact administrator.''), st)"
  using assms by (simp add: login_def)

lemma login_correct_password:
  fixes t1 t2 :: date
  assumes p: "persists st" and at: "user_at st i u"
    and act: "user_status u = Active"
    and u': "u' = u\<lparr>lastLogin := Some t1, failedLoginAttempts := 0, user_updatedAt := t2\<rparr>"
  shows "login (username u) (password u) t1 t2 (state, st) =
           (True, authReducer (authReducer state LOGIN_START) (LOGIN_SUCCESS u'),
            setItem CURRENT_USER (JUser u')
              (setItem USERS (JUsers ((getUsers st)[i := u'])) st))"
proof -
  have fi: "findIndex (\<lambda>x. user_id x = user_id u) (getUsers st) = Some i"
    and ui: "getUsers st ! i = u"
    using at by (auto simp: user_at_def)
  have look: "getUserByUsername st (username u) = Some u"
    using user_at_lookup[OF at] by simp
  show ?thesis
    using act
    by (simp add: login_def look updateUser_found[OF p fi] ui spreadUser_def
        setCurrentUser_def u')
qed

section \<open>Updates with no field\<close>

lemma updateUser_empty:
  assumes f: "findIndex (\<lambda>x. user_id x = ident) (getUsers st) = Some i"
  shows "fst (updateUser ident [] now st) = Some ((getUsers st ! i)\<lparr>user_updatedAt := now\<rparr>)"
    and "getUsers (snd (updateUser ident [] now st)) \<in>
           {getUsers st, (getUsers st)[i := (getUsers st ! i)\<lparr>user_updatedAt := now\<rparr>]}"
  using findIndex_Some[OF f] getUsers_setItem_cases
  by (auto simp: updateUser_def f Let_def spreadUser_def)

lemma updateTerminal_empty:
  assumes f: "findIndex (\<lambda>x. terminal_id x = ident) (getTerminals st) = Some i"
  shows "fst (updateTerminal ident [] now st) =
           Some ((getTerminals st ! i)\<lparr>terminal_updatedAt := now\<rparr>)"
    and "getTerminals (snd (updateTerminal ident [] now st)) \<in>
           {getTerminals st,
            (getTerminals st)[i := (getTerminals st ! i)\<lparr>terminal_updatedAt := now\<rparr>]}"
  using findIndex_Some[OF f] getTerminals_setItem_cases
  by (auto simp: updateTerminal_def f Let_def spreadTerminal_def)

lemma updateTicket_empty:
  assumes f: "findIndex (\<lambda>x. ticket_id x = ident) (getTickets st) = Some i"
  shows "fst (updateTicket ident [] now st) =
           Some ((getTickets st ! i)\<lparr>ticket_updatedAt := now\<rparr>)"
    and "getTickets (snd (updateTicket ident [] now st)) \<in>
           {getTickets st,
            (getTickets st)[i := (getTickets st ! i)\<lparr>ticket_updatedAt := now\<rparr>]}"
  using findIndex_Some[OF f] getTickets_setItem_cases
  by (auto simp: updateTicket_def f Let_def spreadTicket_def)

lemma updateUser_empty_twice:
  fixes n1 n2 :: date
  assumes f: "findIndex (\<lambda>x. user_id x = ident) (getUsers st) = Some i"
    and st1: "st1 = snd (updateUser ident [] n1 st)"
    and st2: "st2 = snd (updateUser ident [] n2 st1)"
    and us: "us = getUsers st"
  shows "fst (updateUser ident [] n1 st) = Some ((us ! i)\<lparr>user_updatedAt := n1\<rparr>) \<and>
         getUsers st1 \<in> {us, us[i := (us ! i)\<lparr>user_updatedAt := n1\<rparr>]} \<and>
         fst (updateUser ident [] n2 st1) = Some ((us ! i)\<lparr>user_updatedAt := n2\<rparr>) \<and>
         getUsers st2 \<in> {us, us[i := (us ! i)\<lparr>user_updatedAt := n1\<rparr>],
                           us[i := (us ! i)\<lparr>user_updatedAt := n2\<rparr>]}"
proof -
  have len: "i < length us" and idi: "user_id (us ! i) = ident"
    using findIndex_Some[OF f] us by auto
  have a: "getUsers st1 \<in> {us, us[i := (us ! i)\<lparr>user_updatedAt := n1\<rparr>]}"
    using updateUser_empty(2)[OF f] st1 us by simp
  have f1: "findIndex (\<lambda>x. user_id x = ident) (getUsers st1) = Some i"
    using a f us idi by (auto simp: findIndex_update)
  have e: "(getUsers st1 ! i)\<lparr>user_updatedAt := n2\<rparr> = (us ! i)\<lparr>user_updatedAt := n2\<rparr>"
    using a len by auto
  have l: "(getUsers st1)[i := (us ! i)\<lparr>user_updatedAt := n2\<rparr>] =
           us[i := (us ! i)\<lparr>user_updatedAt := n2\<rparr>]"
    using a by auto
  show ?thesis
    using a updateUser_empty[OF f, of n1] updateUser_empty[OF f1, of n2] us st2 e l
    by auto
qed

lemma updateTerminal_empty_twice:
  fixes n1 n2 :: date
  assumes f: "findIndex (\<lambda>x. terminal_id x = ident) (getTerminals st) = Some i"
    and st1: "st1 = snd (updateTerminal ident [] n1 st)"
    and st2: "st2 = snd (updateTerminal ident [] n2 st1)"
    and ts: "ts = getTerminals st"
  shows "fst (updateTerminal ident [] n1 st) = Some ((ts ! i)\<lparr>terminal_updatedAt := n1\<rparr>) \<and>
         getTerminals st1 \<in> {ts, ts[i := (ts ! i)\<lparr>terminal_updatedAt := n1\<rparr>]} \<and>
         fst (updateTerminal ident [] n2 st1) = Some ((ts ! i)\<lparr>terminal_updatedAt := n2\<rparr>) \<and>
         getTerminals st2 \<in> {ts, ts[i := (ts ! i)\<lparr>terminal_updatedAt := n1\<rparr>],
                               ts[i := (ts ! i)\<lparr>terminal_updatedAt := n2\<rparr>]}"
proof -
  have len: "i < length ts" and idi: "terminal_id (ts ! i) = ident"
    using findIndex_Some[OF f] ts by auto
  have a: "getTerminals st1 \<in> {ts, ts[i := (ts ! i)\<lparr>terminal_updatedAt := n1\<rparr>]}"
    using updateTerminal_empty(2)[OF f] st1 ts by simp
  have f1: "findIndex (\<lambda>x. terminal_id x = ident) (getTerminals st1) = Some i"
    using a f ts idi by (auto simp: findIndex_update)
  have e: "(getTerminals st1 ! i)\<lparr>terminal_updatedAt := n2\<rparr> =
           (ts ! i)\<lparr>terminal_updatedAt := n2\<rparr>"
    using a len by auto
  have l: "(getTerminals st1)[i := (ts ! i)\<lparr>terminal_updatedAt := n2\<rparr>] =
           ts[i := (ts ! i)\<lparr>terminal_updatedAt := n2\<rparr>]"
    using a by auto
  show ?thesis
    using a updateTerminal_empty[OF f, of n1] updateTerminal_empty[OF f1, of n2] ts st2 e l
    by auto
qed

lemma updateTicket_empty_twice:
  fixes n1 n2 :: date
  assumes f: "findIndex (\<lambda>x. ticket_id x = ident) (getTickets st) = Some i"
    and st1: "st1 = snd (updateTicket ident [] n1 st)"
    and st2: "st2 = snd (updateTicket ident [] n2 st1)"
    and ks: "ks = getTickets st"
  shows "fst (updateTicket ident [] n1 st) = Some ((ks ! i)\<lparr>ticket_updatedAt := n1\<rparr>) \<and>
         getTickets st1 \<in> {ks, ks[i := (ks ! i)\<lparr>ticket_updatedAt := n1\<rparr>]} \<and>
         fst (updateTicket ident [] n2 st1) = Some ((ks ! i)\<lparr>ticket_updatedAt := n2\<rparr>) \<and>
         getTickets st2 \<in> {ks, ks[i := (ks ! i)\<lparr>ticket_updatedAt := n1\<rparr>],
                             ks[i := (ks ! i)\<lparr>ticket_updatedAt := n2\<rparr>]}"
proof -
  have len: "i < length ks" and idi: "ticket_id (ks ! i) = ident"
    using findIndex_Some[OF f] ks by auto
  have a: "getTickets st1 \<in> {ks, ks[i := (ks ! i)\<lparr>ticket_updatedAt := n1\<rparr>]}"
    using updateTicket_empty(2)[OF f] st1 ks by simp
  have f1: "findIndex (\<lambda>x. ticket_id x = ident) (getTickets st1) = Some i"
    using a f ks idi by (auto simp: findIndex_update)
  have e: "(getTickets st1 ! i)\<lparr>ticket_updatedAt := n2\<rparr> = (ks ! i)\<lparr>ticket_updatedAt := n2\<rparr>"
    using a len by auto
  have l: "(getTickets st1)[i := (ks ! i)\<lparr>ticket_updatedAt := n2\<rparr>] =
           ks[i := (ks ! i)\<lparr>ticket_updatedAt := n2\<rparr>]"
    using a by auto
  show ?thesis
    using a updateTicket_empty[OF f, of n1] updateTicket_empty[OF f1, of n2] ks st2 e l
    by auto
qed

section \<open>The keys a call touches\<close>

lemma frame_initializeData:
  assumes "key \<notin> set data_keys"
  shows "items (initializeData env st) key = items st key"
  using assms
  by (simp add: initializeData_def Let_def data_keys_def items_setItem_other)

lemma frame_fold_removeItem:
  "key \<notin> set ks \<Longrightarrow> items (fold removeItem ks st) key = items st key"
  by (induction ks arbitrary: st) (auto simp: items_removeItem_other)

lemma frame_perform:
  assumes "key \<notin> set STORAGE_KEYS"
  shows "items (snd (perform c st)) key = items st key"
proof -
  have d: "key \<notin> set data_keys" and
    n: "key \<noteq> USERS" "key \<noteq> TERMINALS" "key \<noteq> TICKETS" "key \<noteq> ALERTS"
       "key \<noteq> METRICS" "key \<noteq> CURRENT_USER"
    using assms by (auto simp: STORAGE_KEYS_def data_keys_def)
  show ?thesis
  proof (cases c)
    case (Call_initializeData env)
    then show ?thesis by (simp add: frame_initializeData[OF d])
  next
    case (Call_clearAllData env)
    then show ?thesis
      by (simp add: clearAllData_def frame_initializeData[OF d] frame_fold_removeItem[OF assms])
  next
    case (Call_setCurrentUser u)
    then show ?thesis using n
      by (cases u) (simp_all add: setCurrentUser_def items_setItem_other items_removeItem_other)
  qed (use n in \<open>simp_all add: createUser_def updateUser_def deleteUser_def updateTerminal_def
        updateTerminalStatus_def createTicket_def updateTicket_def createAlert_def Let_def
        items_setItem_other split: option.splits prod.splits\<close>)
qed

lemma removed_or_kept:
  "items (fold removeItem ks st) key = items st key \<or> items (fold removeItem ks st) key = None"
proof (induction ks arbitrary: st)
  case Nil
  then show ?case by simp
next
  case (Cons a ks)
  have "items (removeItem a st) key = items st key \<or> items (removeItem a st) key = None"
    by (simp add: removeItem_def)
  with Cons[of "removeItem a st"] show ?case by auto
qed

lemma comments_perform:
  "items (snd (perform c st)) COMMENTS = items st COMMENTS \<or>
   ((\<exists>env. c = Call_clearAllData env) \<and> items (snd (perform c st)) COMMENTS = None)"
proof -
  have d: "COMMENTS \<notin> set data_keys" and
    n: "COMMENTS \<noteq> USERS" "COMMENTS \<noteq> TERMINALS" "COMMENTS \<noteq> TICKETS" "COMMENTS \<noteq> ALERTS"
       "COMMENTS \<noteq> METRICS" "COMMENTS \<noteq> CURRENT_USER"
    by (simp_all add: data_keys_def key_defs)
  show ?thesis
  proof (cases c)
    case (Call_initializeData env)
    then show ?thesis by (simp add: frame_initializeData[OF d])
  next
    case (Call_clearAllData env)
    then show ?thesis
      using removed_or_kept[of STORAGE_KEYS st COMMENTS]
      by (simp add: clearAllData_def frame_initializeData[OF d])
  next
    case (Call_setCurrentUser u)
    then show ?thesis using n
      by (cases u) (simp_all add: setCurrentUser_def items_setItem_other items_removeItem_other)
  qed (use n in \<open>simp_all add: createUser_def updateUser_def deleteUser_def updateTerminal_def
        updateTerminalStatus_def createTicket_def updateTicket_def createAlert_def Let_def
        items_setItem_other split: option.splits prod.splits\<close>)
qed

lemma same_data_items:
  assumes "same_data st st'"
  shows "items st' USERS = items st USERS" "items st' TERMINALS = items st TERMINALS"
    "items st' TICKETS = items st TICKETS" "items st' ALERTS = items st ALERTS"
    "items st' METRICS = items st METRICS" "items st' CURRENT_USER = items st CURRENT_USER"
    "faults st' = faults st"
  using assms by (simp_all add: same_data_def data_keys_def)

lemma same_data_reads:
  assumes "same_data st st'"
  shows "getUsers st' = getUsers st" "getTerminals st' = getTerminals st"
    "getTickets st' = getTickets st" "getAlerts st' = getAlerts st"
    "getMetrics st' = getMetrics st" "getCurrentUser st' = getCurrentUser st"
    "getItem st' USERS = getItem st USERS" "getItem st' TERMINALS = getItem st TERMINALS"
    "getItem st' TICKETS = getItem st TICKETS" "getItem st' ALERTS = getItem st ALERTS"
    "getItem st' METRICS = getItem st METRICS"
  by (simp_all add: getUsers_def getTerminals_def getTickets_def getAlerts_def getMetrics_def
      getCurrentUser_def getItem_def same_data_items[OF assms])

lemma same_data_setItem:
  "same_data st st' \<Longrightarrow> same_data (setItem key data st) (setItem key data st')"
  by (auto simp: same_data_def setItem_def split: list.splits bool.splits)

lemma same_data_removeItem:
  "same_data st st' \<Longrightarrow> same_data (removeItem key st) (removeItem key st')"
  by (auto simp: same_data_def removeItem_def)

lemma same_data_fold_removeItem:
  "same_data st st' \<Longrightarrow> same_data (fold removeItem ks st) (fold removeItem ks st')"
  by (induction ks arbitrary: st st') (auto simp: same_data_removeItem)

lemma same_data_seed:
  assumes "same_data st st'" "key \<in> set data_keys"
  shows "same_data (if getItem st key = None then setItem key data st else st)
                   (if getItem st' key = None then setItem key data st' else st')"
proof -
  have "getItem st' key = getItem st key"
    using assms by (simp add: same_data_def getItem_def)
  then show ?thesis using assms(1) by (simp add: same_data_setItem)
qed

lemma same_data_initializeData:
  assumes "same_data st st'"
  shows "same_data (initializeData env st) (initializeData env st')"
  unfolding initializeData_def Let_def
  by (intro same_data_seed assms) (simp_all add: data_keys_def)

lemma same_data_perform:
  assumes sd: "same_data st st'"
  shows "fst (perform c st') = fst (perform c st) \<and>
         same_data (snd (perform c st)) (snd (perform c st'))"
proof (cases c)
  case (Call_initializeData env)
  then show ?thesis by (simp add: same_data_initializeData[OF sd])
next
  case (Call_clearAllData env)
  then show ?thesis
    by (simp add: clearAllData_def same_data_initializeData same_data_fold_removeItem[OF sd])
next
  case (Call_setCurrentUser u)
  then show ?thesis
    by (cases u) (simp_all add: setCurrentUser_def same_data_setItem[OF sd]
        same_data_removeItem[OF sd])
qed (simp_all add: same_data_reads[OF sd] sd same_data_setItem[OF sd]
      getUserById_def getUserByUsername_def getTerminalById_def getTerminalsByUser_def
      getTicketsByUser_def createUser_def updateUser_def deleteUser_def updateTerminal_def
      updateTerminalStatus_def createTicket_def updateTicket_def createAlert_def Let_def
      split: option.splits prod.splits)

section \<open>The concrete deployment, evaluated\<close>

lemma sample_metrics_length: "length (generateSampleMetrics env0) = 31"
  by (simp add: generateSampleMetrics_def env0_def sample_metrics_series_def)

lemma seeded_items:
  "items seeded = [USERS \<mapsto> JUsers (generateSampleUsers env0),
                   TERMINALS \<mapsto> JTerminals (generateSampleTerminals env0),
                   TICKETS \<mapsto> JTickets (generateSampleTickets env0),
                   ALERTS \<mapsto> JAlerts (generateSampleAlerts env0),
                   METRICS \<mapsto> JMetrics (generateSampleMetrics env0)]"
  "faults seeded = []" "console seeded = []"
  by (simp_all add: seeded_def initializeData_def empty_storage_def getItem_def setItem_def
      key_defs)

lemma seeded_gets:
  "getUsers seeded = generateSampleUsers env0"
  "getTerminals seeded = generateSampleTerminals env0"
  "getTickets seeded = generateSampleTickets env0"
  by (simp_all add: getUsers_def getTerminals_def getTickets_def getItem_def seeded_items
      key_defs)

lemma seeded_ok: "well_shaped seeded" "persists seeded"
  by (simp_all add: well_shaped_def persists_def seeded_items key_defs)

lemmas eval_defs =
  login_def updateUser_def deleteUser_def setCurrentUser_def getUserByUsername_def
  getUserById_def getUsers_def getTerminals_def getTickets_def getItem_def setItem_def
  spreadUser_def initialState_def key_defs seeded_items

lemma attempt2_value:
  "getUsers (snd (snd attempt2)) = (generateSampleUsers env0)[0 := admin_twice_failed]"
  "well_shaped (snd (snd attempt2))" "persists (snd (snd attempt2))"
  by (simp_all add: attempt2_def attempt1_def eval_defs admin_twice_failed_def
      sample_admin_def generateSampleUsers_def well_shaped_def persists_def)

lemma merchant_login_value:
  "currentUser merchant_session = Some merchant_logged_in"
  "getUsers merchant_store = (generateSampleUsers env0)[3 := merchant_logged_in]"
  "getTerminals merchant_store = generateSampleTerminals env0"
  "getTickets merchant_store = generateSampleTickets env0"
  "well_shaped merchant_store"
  by (simp_all add: merchant_session_def merchant_store_def merchant_login_def eval_defs
      merchant_logged_in_def sample_merchant_def generateSampleUsers_def well_shaped_def)

lemma reassigned_store_value:
  "map_option user_id (getUserById reassigned_store ''user-merchant-001'') =
     Some ''user-merchant-001''"
  "map_option role (getUserById reassigned_store ''user-merchant-001'') = Some SupportAgent"
  "map_option assignedTerminals (getUserById reassigned_store ''user-merchant-001'') =
     Some (Some [''T001''])"
  "getTerminals reassigned_store = generateSampleTerminals env0"
  "map terminalId (getTickets reassigned_store) = [''T001'', ''T002'']"
  "well_shaped reassigned_store"
  by (simp_all add: reassigned_store_def createTicket_def second_ticket_def merchant_store_def
      merchant_login_def eval_defs sample_merchant_def generateSampleUsers_def
      generateSampleTickets_def Let_def well_shaped_def)

lemma orphan_store_value:
  "getUsers orphan_store = take 3 (generateSampleUsers env0)"
  "getTerminals orphan_store = generateSampleTerminals env0"
  "getTickets orphan_store = generateSampleTickets env0"
  "well_shaped orphan_store"
  by (simp_all add: orphan_store_def merchant_store_def merchant_login_def eval_defs
      sample_merchant_def generateSampleUsers_def well_shaped_def)

lemma admin_login_value:
  "map_option role (currentUser admin_session) = Some Administrator"
  "map_option user_id (currentUser admin_session) = Some ''user-admin-001''"
  "getUsers admin_deleted_store = tl (generateSampleUsers env0)"
  "getTerminals admin_deleted_store = generateSampleTerminals env0"
  "getTickets admin_deleted_store = generateSampleTickets env0"
  "well_shaped admin_deleted_store"
  by (simp_all add: admin_session_def admin_deleted_store_def admin_login_def eval_defs
      sample_admin_def generateSampleUsers_def well_shaped_def)

section \<open>Claims\<close>

subsection \<open>C1: lockout after three wrong passwords\<close>

text \<open>
  Claim C1. Take a stored user \<open>u\<close> with \<open>failedLoginAttempts = 0\<close> and status Active:
  the record that the store returns for its username and for its id. Three consecutive
  calls of \<open>login\<close> with that username and a wrong password each return \<open>false\<close> and
  leave the stored record Locked with \<open>failedLoginAttempts = 3\<close> (every other field but
  \<open>updatedAt\<close> as it was); a fourth call with the right password returns \<open>false\<close> too
  and leaves the whole store unchanged. The store is well shaped and accepts the writes
  of the calls. \<open>a1, a2, ...\<close> are the clock readings of the four calls.
\<close>

theorem login_lockout:
  fixes a1 a2 b1 b2 c1 c2 d1 d2 :: date
  assumes ws: "well_shaped st" and p: "persists st"
    and byName: "getUserByUsername st (username u) = Some u"
    and byId: "getUserById st (user_id u) = Some u"
    and zero: "failedLoginAttempts u = 0" and act: "user_status u = Active"
    and wrong: "pw1 \<noteq> password u" "pw2 \<noteq> password u" "pw3 \<noteq> password u"
    and r1: "r1 = login (username u) pw1 a1 a2 (state, st)"
    and r2: "r2 = login (username u) pw2 b1 b2 (snd r1)"
    and r3: "r3 = login (username u) pw3 c1 c2 (snd r2)"
    and r4: "r4 = login (username u) (password u) d1 d2 (snd r3)"
  shows "\<not> fst r1 \<and> \<not> fst r2 \<and> \<not> fst r3 \<and>
         getUserByUsername (snd (snd r3)) (username u) =
           Some (u\<lparr>failedLoginAttempts := 3, user_status := Locked, user_updatedAt := c2\<rparr>) \<and>
         getUserById (snd (snd r3)) (user_id u) =
           Some (u\<lparr>failedLoginAttempts := 3, user_status := Locked, user_updatedAt := c2\<rparr>) \<and>
         \<not> fst r4 \<and> snd (snd r4) = snd (snd r3)"
proof -
  define u1 where "u1 = u\<lparr>failedLoginAttempts := 1, user_updatedAt := a1\<rparr>"
  define u2 where "u2 = u\<lparr>failedLoginAttempts := 2, user_updatedAt := b1\<rparr>"
  define u3 where
    "u3 = u\<lparr>failedLoginAttempts := 3, user_status := Locked, user_updatedAt := c2\<rparr>"
  from lookup_user_at[OF byName byId] obtain i where at: "user_at st i u" ..
  have n1: "password u \<noteq> pw1" using wrong(1) by simp
  have v1: "u1 = (if failedLoginAttempts u + 1 \<ge> 3
                  then u\<lparr>failedLoginAttempts := failedLoginAttempts u + 1,
                         user_status := Locked, user_updatedAt := a2\<rparr>
                  else u\<lparr>failedLoginAttempts := failedLoginAttempts u + 1,
                         user_updatedAt := a1\<rparr>)"
    using zero by (simp add: u1_def)
  from login_wrong_password[OF ws p at act n1 v1, of state]
  obtain s1 st1 where
    l1: "login (username u) pw1 a1 a2 (state, st) = (False, s1, st1)"
    and i1: "well_shaped st1" "persists st1" "user_at st1 i u1"
    by blast
  have f1: "username u1 = username u" "password u1 \<noteq> pw2" "user_status u1 = Active"
    using act wrong(2) by (simp_all add: u1_def)
  have v2: "u2 = (if failedLoginAttempts u1 + 1 \<ge> 3
                  then u1\<lparr>failedLoginAttempts := failedLoginAttempts u1 + 1,
                          user_status := Locked, user_updatedAt := b2\<rparr>
                  else u1\<lparr>failedLoginAttempts := failedLoginAttempts u1 + 1,
                          user_updatedAt := b1\<rparr>)"
    by (simp add: u1_def u2_def)
  from login_wrong_password[OF i1 f1(3) f1(2) v2, of s1] f1(1)
  obtain s2 st2 where
    l2: "login (username u) pw2 b1 b2 (s1, st1) = (False, s2, st2)"
    and i2: "well_shaped st2" "persists st2" "user_at st2 i u2"
    by auto
  have f2: "username u2 = username u" "password u2 \<noteq> pw3" "user_status u2 = Active"
    using act wrong(3) by (simp_all add: u2_def)
  have v3: "u3 = (if failedLoginAttempts u2 + 1 \<ge> 3
                  then u2\<lparr>failedLoginAttempts := failedLoginAttempts u2 + 1,
                          user_status := Locked, user_updatedAt := c2\<rparr>
                  else u2\<lparr>failedLoginAttempts := failedLoginAttempts u2 + 1,
                          user_updatedAt := c1\<rparr>)"
    by (simp add: u2_def u3_def)
  from login_wrong_password[OF i2 f2(3) f2(2) v3, of s2] f2(1)
  obtain s3 st3 where
    l3: "login (username u) pw3 c1 c2 (s2, st2) = (False, s3, st3)"
    and i3: "well_shaped st3" "persists st3" "user_at st3 i u3"
    by auto
  have f3: "username u3 = username u" "user_id u3 = user_id u" "user_status u3 = Locked"
    by (simp_all add: u3_def)
  have look3: "getUserByUsername st3 (username u) = Some u3"
    "getUserById st3 (user_id u) = Some u3"
    using user_at_lookup[OF i3(3)] f3 by simp_all
  have l4: "login (username u) (password u) d1 d2 (s3, st3) =
      (False, authReducer (authReducer s3 LOGIN_START)
         (LOGIN_FAILURE ''Account is locked. Contact administrator.''), st3)"
    by (rule login_locked[OF look3(1) f3(3)])
  have e1: "r1 = (False, s1, st1)" using r1 l1 by simp
  have e2: "r2 = (False, s2, st2)" using r2 e1 l2 by simp
  have e3: "r3 = (False, s3, st3)" using r3 e2 l3 by simp
  show ?thesis
    using e1 e2 e3 r4 l4 look3 by (simp add: u3_def)
qed

theorem login_lockout_witness:
  "well_shaped seeded \<and> persists seeded \<and>
   getUserByUsername seeded (username sample_admin) = Some sample_admin \<and>
   getUserById seeded (user_id sample_admin) = Some sample_admin \<and>
   failedLoginAttempts sample_admin = 0 \<and> user_status sample_admin = Active \<and>
   ''wrong'' \<noteq> password sample_admin \<and> ''admin'' \<noteq> password sample_admin \<and>
   ''Admin123'' \<noteq> password sample_admin \<and>
   \<not> fst attempt1 \<and> \<not> fst attempt2 \<and> \<not> fst attempt3 \<and>
   getUserByUsername (snd (snd attempt3)) ''admin.mukamuri'' =
     Some (sample_admin\<lparr>failedLoginAttempts := 3, user_status := Locked,
                         user_updatedAt := 1762041720001\<rparr>) \<and>
   \<not> fst attempt4 \<and> snd (snd attempt4) = snd (snd attempt3)"
proof -
  have n: "username sample_admin = ''admin.mukamuri''" "password sample_admin = ''admin123''"
    by (simp_all add: sample_admin_def generateSampleUsers_def)
  have h: "getUserByUsername seeded (username sample_admin) = Some sample_admin"
    "getUserById seeded (user_id sample_admin) = Some sample_admin"
    "failedLoginAttempts sample_admin = 0" "user_status sample_admin = Active"
    "''wrong'' \<noteq> password sample_admin" "''admin'' \<noteq> password sample_admin"
    "''Admin123'' \<noteq> password sample_admin"
    by (simp_all add: getUserByUsername_def getUserById_def seeded_gets sample_admin_def
        generateSampleUsers_def)
  have r:
    "attempt1 = login (username sample_admin) ''wrong'' 1762041700000 1762041700001
                  (initialState, seeded)"
    "attempt2 = login (username sample_admin) ''admin'' 1762041710000 1762041710001
                  (snd attempt1)"
    "attempt3 = login (username sample_admin) ''Admin123'' 1762041720000 1762041720001
                  (snd attempt2)"
    "attempt4 = login (username sample_admin) (password sample_admin) 1762041730000
                  1762041730001 (snd attempt3)"
    by (simp_all add: n attempt1_def attempt2_def attempt3_def attempt4_def)
  from login_lockout[OF seeded_ok h r] seeded_ok h show ?thesis
    by (simp add: n)
qed

subsection \<open>C2: what a merchant sees\<close>

text \<open>
  Claim C2, as stated: for every current user with the role Merchant who is present in
  the stored users, \<open>getAccessibleTerminals()\<close> returns exactly the stored terminals
  whose id is among that user's \<open>assignedTerminals\<close>, and \<open>getAccessibleTickets()\<close>
  exactly the stored tickets whose \<open>terminalId\<close> is among them. Both accessors decide
  on the role of the stored record, which \<open>getUserById\<close> reads at every call, and not
  on the role of the session. A merchant whose stored record is edited to another role
  after the login is still present under the same id, with \<open>assignedTerminals =
  ["T001"]\<close>, and gets all five terminals and both tickets, the one for \<open>T002\<close>
  included.
\<close>

theorem merchant_scoping_counterexample:
  "currentUser merchant_session = Some merchant_logged_in \<and>
   role merchant_logged_in = Merchant \<and>
   assignedTerminals merchant_logged_in = Some [''T001''] \<and>
   well_shaped reassigned_store \<and>
   map_option user_id (getUserById reassigned_store (user_id merchant_logged_in)) =
     Some (user_id merchant_logged_in) \<and>
   map_option assignedTerminals (getUserById reassigned_store (user_id merchant_logged_in)) =
     Some (Some [''T001'']) \<and>
   getAccessibleTerminals merchant_session reassigned_store = getTerminals reassigned_store \<and>
   map terminal_id (getTerminals reassigned_store) =
     [''T001'', ''T002'', ''T003'', ''T004'', ''T005''] \<and>
   getAccessibleTickets merchant_session reassigned_store = getTickets reassigned_store \<and>
   map terminalId (getTickets reassigned_store) = [''T001'', ''T002'']"
proof -
  have m: "user_id merchant_logged_in = ''user-merchant-001''"
    "role merchant_logged_in = Merchant"
    "assignedTerminals merchant_logged_in = Some [''T001'']"
    by (simp_all add: merchant_logged_in_def sample_merchant_def generateSampleUsers_def)
  obtain su where su: "getUserById reassigned_store ''user-merchant-001'' = Some su"
    "role su = SupportAgent"
    using reassigned_store_value(2)
    by (cases "getUserById reassigned_store ''user-merchant-001''") auto
  have t: "getAccessibleTerminals merchant_session reassigned_store =
             getTerminals reassigned_store"
    using su m by (simp add: getAccessibleTerminals_def merchant_login_value(1)
        getTerminalsByUser_def)
  have k: "getAccessibleTickets merchant_session reassigned_store =
             getTickets reassigned_store"
    using su m by (simp add: getAccessibleTickets_def merchant_login_value(1)
        getTicketsByUser_def)
  have i: "map terminal_id (getTerminals reassigned_store) =
             [''T001'', ''T002'', ''T003'', ''T004'', ''T005'']"
    by (simp add: reassigned_store_value(4) generateSampleTerminals_def Let_def)
  show ?thesis
    using m t k i reassigned_store_value merchant_login_value(1) by simp
qed

text \<open>
  Claim C2, amended. The current user has the role Merchant, and the store returns, for
  the current user's id, a record \<open>su\<close> that has the role Merchant too (the current
  user's own record when session and store agree). Then \<open>getAccessibleTerminals()\<close>
  returns exactly the stored terminals whose id is among the \<open>assignedTerminals\<close> of
  that stored record, and \<open>getAccessibleTickets()\<close> exactly the stored tickets whose
  \<open>terminalId\<close> is among them, both in stored order. In particular, with
  \<open>assignedTerminals = ["T001"]\<close> only terminals with the id \<open>"T001"\<close> are returned:
  in the seeded store of five terminals, the one terminal \<open>T001\<close>.
\<close>

theorem merchant_scoping:
  assumes ws: "well_shaped st"
    and cu: "currentUser state = Some cu" and m: "role cu = Merchant"
    and su: "getUserById st (user_id cu) = Some su" and sm: "role su = Merchant"
  shows "getAccessibleTerminals state st =
           filter (\<lambda>t. terminal_id t \<in> set (assigned_ids su)) (getTerminals st) \<and>
         getAccessibleTickets state st =
           filter (\<lambda>k. terminalId k \<in> set (assigned_ids su)) (getTickets st) \<and>
         (assignedTerminals su = Some [''T001''] \<longrightarrow>
            getAccessibleTerminals state st =
              filter (\<lambda>t. terminal_id t = ''T001'') (getTerminals st))"
proof (cases "assignedTerminals su")
  case None
  with cu m su sm show ?thesis
    by (simp add: getAccessibleTerminals_def getTerminalsByUser_def
        getAccessibleTickets_def getTicketsByUser_def assigned_ids_def)
next
  case (Some a)
  with cu m su sm show ?thesis
    by (simp add: getAccessibleTerminals_def getTerminalsByUser_def
        getAccessibleTickets_def getTicketsByUser_def assigned_ids_def)
qed

theorem merchant_scoping_witness:
  "well_shaped merchant_store \<and> currentUser merchant_session = Some merchant_logged_in \<and>
   role merchant_logged_in = Merchant \<and>
   getUserById merchant_store (user_id merchant_logged_in) = Some merchant_logged_in \<and>
   assignedTerminals merchant_logged_in = Some [''T001''] \<and>
   length (getTerminals merchant_store) = 5 \<and>
   getAccessibleTerminals merchant_session merchant_store = [generateSampleTerminals env0 ! 0] \<and>
   terminal_id (generateSampleTerminals env0 ! 0) = ''T001'' \<and>
   getAccessibleTickets merchant_session merchant_store = generateSampleTickets env0"
proof -
  have h: "role merchant_logged_in = Merchant"
    "getUserById merchant_store (user_id merchant_logged_in) = Some merchant_logged_in"
    "assignedTerminals merchant_logged_in = Some [''T001'']"
    by (simp_all add: getUserById_def merchant_login_value(2) merchant_logged_in_def
        sample_merchant_def generateSampleUsers_def)
  from merchant_scoping[OF merchant_login_value(5) merchant_login_value(1) h(1) h(2) h(1)]
  show ?thesis
    using h merchant_login_value
    by (simp add: assigned_ids_def generateSampleTerminals_def generateSampleTickets_def Let_def)
qed

subsection \<open>C3: the permission table\<close>

text \<open>
  Claim C3. \<open>hasPermission("manage_users")\<close> is true when the current user's role is
  Administrator or Service Desk Manager and false when it is Support Agent or Merchant;
  with no current user \<open>hasPermission\<close> is false for every permission.
\<close>

theorem hasPermission_manage_users:
  "(currentUser state = Some u \<and> role u = Administrator \<longrightarrow>
      hasPermission state ''manage_users'') \<and>
   (currentUser state = Some u \<and> role u = ServiceDeskManager \<longrightarrow>
      hasPermission state ''manage_users'') \<and>
   (currentUser state = Some u \<and> role u = SupportAgent \<longrightarrow>
      \<not> hasPermission state ''manage_users'') \<and>
   (currentUser state = Some u \<and> role u = Merchant \<longrightarrow>
      \<not> hasPermission state ''manage_users'') \<and>
   (currentUser state = None \<longrightarrow> \<not> hasPermission state permission)"
  by (simp add: hasPermission_def ROLE_PERMISSIONS_def)

theorem hasPermission_manage_users_witness:
  "hasPermission (session_of sample_admin) ''manage_users'' \<and>
   hasPermission (session_of sample_manager) ''manage_users'' \<and>
   \<not> hasPermission (session_of sample_support) ''manage_users'' \<and>
   \<not> hasPermission (session_of sample_merchant) ''manage_users'' \<and>
   \<not> hasPermission initialState ''manage_users'' \<and>
   \<not> hasPermission initialState ''view_all_terminals''"
proof -
  have r: "role sample_admin = Administrator" "role sample_manager = ServiceDeskManager"
    "role sample_support = SupportAgent" "role sample_merchant = Merchant"
    by (simp_all add: sample_admin_def sample_manager_def sample_support_def
        sample_merchant_def generateSampleUsers_def)
  have s: "currentUser (session_of u) = Some u" for u
    by (simp add: session_of_def)
  have i: "currentUser initialState = None"
    by (simp add: initialState_def)
  show ?thesis
    using hasPermission_manage_users[of "session_of sample_admin" sample_admin]
      hasPermission_manage_users[of "session_of sample_manager" sample_manager]
      hasPermission_manage_users[of "session_of sample_support" sample_support]
      hasPermission_manage_users[of "session_of sample_merchant" sample_merchant]
      hasPermission_manage_users[of initialState _ "''manage_users''"]
      hasPermission_manage_users[of initialState _ "''view_all_terminals''"]
    by (simp add: r s i)
qed

subsection \<open>C4: what a user of another role sees\<close>

text \<open>
  Claim C4, as stated: for every current user whose role is not Merchant,
  \<open>getAccessibleTerminals()\<close> returns all stored terminals and \<open>getAccessibleTickets()\<close>
  all stored tickets. The tickets part fails: \<open>getTicketsByUser\<close> looks the current
  user's id up in the stored users and returns nothing when it is not there. The
  administrator whose record is deleted after the login sees no ticket, though one is
  stored.
\<close>

theorem staff_visibility_counterexample:
  "map_option role (currentUser admin_session) = Some Administrator \<and>
   Administrator \<noteq> Merchant \<and> well_shaped admin_deleted_store \<and>
   getAccessibleTerminals admin_session admin_deleted_store
     = getTerminals admin_deleted_store \<and>
   getAccessibleTickets admin_session admin_deleted_store = [] \<and>
   getTickets admin_deleted_store = generateSampleTickets env0 \<and>
   length (generateSampleTickets env0) = 1"
proof -
  obtain a where a: "currentUser admin_session = Some a" "role a = Administrator"
    "user_id a = ''user-admin-001''"
    using admin_login_value(1,2) by (cases "currentUser admin_session") auto
  have "getUserById admin_deleted_store ''user-admin-001'' = None"
    by (simp add: getUserById_def admin_login_value(3) generateSampleUsers_def)
  then show ?thesis
    using a admin_login_value
    by (simp add: getAccessibleTerminals_def getAccessibleTickets_def getTicketsByUser_def
        generateSampleTickets_def Let_def)
qed

text \<open>
  Claim C4, amended. For every current user whose role is not Merchant,
  \<open>getAccessibleTerminals()\<close> returns the entire stored terminals collection, in stored
  order; \<open>getAccessibleTickets()\<close> returns the entire stored tickets collection, in
  stored order, when the stored users hold under the current user's id a record whose
  role is not Merchant.
\<close>

theorem staff_visibility:
  assumes ws: "well_shaped st"
    and cu: "currentUser state = Some cu" and m: "role cu \<noteq> Merchant"
  shows "getAccessibleTerminals state st = getTerminals st \<and>
         (\<forall>su. getUserById st (user_id cu) = Some su \<and> role su \<noteq> Merchant \<longrightarrow>
            getAccessibleTickets state st = getTickets st)"
  using cu m by (simp add: getAccessibleTerminals_def getAccessibleTickets_def
      getTicketsByUser_def)

theorem staff_visibility_witness:
  "well_shaped seeded \<and> currentUser (session_of sample_manager) = Some sample_manager \<and>
   role sample_manager \<noteq> Merchant \<and>
   getUserById seeded (user_id sample_manager) = Some sample_manager \<and>
   getAccessibleTerminals (session_of sample_manager) seeded = generateSampleTerminals env0 \<and>
   getAccessibleTickets (session_of sample_manager) seeded = generateSampleTickets env0"
proof -
  have h: "currentUser (session_of sample_manager) = Some sample_manager"
    "role sample_manager \<noteq> Merchant"
    "getUserById seeded (user_id sample_manager) = Some sample_manager"
    by (simp_all add: session_of_def getUserById_def seeded_gets sample_manager_def
        generateSampleUsers_def)
  from staff_visibility[OF seeded_ok(1) h(1) h(2)] h seeded_ok(1)
  show ?thesis by (simp add: seeded_gets)
qed

subsection \<open>C5: a successful login resets the counter\<close>

text \<open>
  Claim C5. Take a stored user \<open>u\<close> with status Active and \<open>failedLoginAttempts = 2\<close>:
  the record that the store returns for its username and for its id. A call of \<open>login\<close>
  with that username and the right password returns \<open>true\<close>, leaves the stored record
  with \<open>failedLoginAttempts = 0\<close> and \<open>lastLogin\<close> set to the time of the call (\<open>t1\<close>),
  and sets that record as the current session, in the storage and in the provider's
  state. The store is well shaped and accepts the writes of the call.
\<close>

theorem login_success_resets:
  fixes t1 t2 :: date
  assumes ws: "well_shaped st" and p: "persists st"
    and byName: "getUserByUsername st (username u) = Some u"
    and byId: "getUserById st (user_id u) = Some u"
    and act: "user_status u = Active" and two: "failedLoginAttempts u = 2"
    and r: "r = login (username u) (password u) t1 t2 (state, st)"
    and u': "u' = u\<lparr>lastLogin := Some t1, failedLoginAttempts := 0, user_updatedAt := t2\<rparr>"
  shows "fst r \<and> getUserByUsername (snd (snd r)) (username u) = Some u' \<and>
         getUserById (snd (snd r)) (user_id u) = Some u' \<and>
         failedLoginAttempts u' = 0 \<and> lastLogin u' = Some t1 \<and>
         getCurrentUser (snd (snd r)) = Some u' \<and> currentUser (fst (snd r)) = Some u'"
proof -
  from lookup_user_at[OF byName byId] obtain i where at: "user_at st i u" ..
  define st1 where "st1 = setItem USERS (JUsers ((getUsers st)[i := u'])) st"
  have at1: "user_at st1 i u'"
    unfolding st1_def by (rule user_at_update[OF at p]) (simp_all add: u')
  have p1: "persists st1" unfolding st1_def by (rule persists_setItem[OF p])
  have r': "r = (True, authReducer (authReducer state LOGIN_START) (LOGIN_SUCCESS u'),
                 setItem CURRENT_USER (JUser u') st1)"
    unfolding r st1_def by (rule login_correct_password[OF p at act u'])
  have "user_at (snd (snd r)) i u'"
    using at1 unfolding user_at_def r'
    by (simp add: getUsers_setItem_other key_defs)
  from user_at_lookup[OF this]
  have look: "getUserByUsername (snd (snd r)) (username u) = Some u'"
    "getUserById (snd (snd r)) (user_id u) = Some u'"
    by (simp_all add: u')
  have cur: "getCurrentUser (snd (snd r)) = Some u'"
    by (simp add: r' getCurrentUser_def getItem_def setItem_persists[OF p1])
  show ?thesis using look cur by (simp add: r' u')
qed

theorem login_success_resets_witness:
  "well_shaped (snd (snd attempt2)) \<and> persists (snd (snd attempt2)) \<and>
   getUserByUsername (snd (snd attempt2)) ''admin.mukamuri'' = Some admin_twice_failed \<and>
   user_status admin_twice_failed = Active \<and> failedLoginAttempts admin_twice_failed = 2 \<and>
   fst recovery \<and>
   getUserByUsername (snd (snd recovery)) ''admin.mukamuri'' =
     Some (admin_twice_failed\<lparr>lastLogin := Some 1762041740000, failedLoginAttempts := 0,
                               user_updatedAt := 1762041740001\<rparr>) \<and>
   getCurrentUser (snd (snd recovery)) =
     Some (admin_twice_failed\<lparr>lastLogin := Some 1762041740000, failedLoginAttempts := 0,
                               user_updatedAt := 1762041740001\<rparr>) \<and>
   currentUser (fst (snd recovery)) =
     Some (admin_twice_failed\<lparr>lastLogin := Some 1762041740000, failedLoginAttempts := 0,
                               user_updatedAt := 1762041740001\<rparr>)"
proof -
  have n: "username admin_twice_failed = ''admin.mukamuri''"
    "password admin_twice_failed = ''admin123''"
    by (simp_all add: admin_twice_failed_def sample_admin_def generateSampleUsers_def)
  have h: "getUserByUsername (snd (snd attempt2)) (username admin_twice_failed)
             = Some admin_twice_failed"
    "getUserById (snd (snd attempt2)) (user_id admin_twice_failed) = Some admin_twice_failed"
    "user_status admin_twice_failed = Active" "failedLoginAttempts admin_twice_failed = 2"
    by (simp_all add: getUserByUsername_def getUserById_def attempt2_value(1)
        admin_twice_failed_def sample_admin_def generateSampleUsers_def)
  have r: "recovery = login (username admin_twice_failed) (password admin_twice_failed)
             1762041740000 1762041740001 (fst (snd attempt2), snd (snd attempt2))"
    by (simp add: recovery_def n)
  from login_success_resets[OF attempt2_value(2,3) h r refl] attempt2_value(2,3) h
  show ?thesis by (simp add: n)
qed

subsection \<open>C6: a failed write is swallowed\<close>

text \<open>
  Claim C6. On a well-shaped store, when the write of a mutating operation throws (the next fault of the store
  is \<open>True\<close>), the exception is caught in \<open>setItem\<close> and logged: the operation returns
  normally, with the value it returns when the write succeeds, and leaves the store as
  \<open>refused\<close> describes it (items unchanged, the error on the console), or untouched when
  the operation writes nothing (an update or delete of an id that is not stored). This
  holds for \<open>createUser\<close>, \<open>updateUser\<close>, \<open>deleteUser\<close>, \<open>setCurrentUser\<close>,
  \<open>updateTerminal\<close>, \<open>updateTerminalStatus\<close>, \<open>createTicket\<close>, \<open>updateTicket\<close> and
  \<open>createAlert\<close>. No operation has a result that stands for an exception.
\<close>

theorem persistence_failure_swallowed:
  fixes st :: localStorage and fs :: "bool list"
  assumes ws: "well_shaped st"
  shows
  "fst (createUser d t r tc tu (st\<lparr>faults := True # fs\<rparr>)) =
     fst (createUser d t r tc tu (st\<lparr>faults := False # fs\<rparr>)) \<and>
   snd (createUser d t r tc tu (st\<lparr>faults := True # fs\<rparr>)) = refused st fs \<and>
   fst (updateUser i upd now (st\<lparr>faults := True # fs\<rparr>)) =
     fst (updateUser i upd now (st\<lparr>faults := False # fs\<rparr>)) \<and>
   snd (updateUser i upd now (st\<lparr>faults := True # fs\<rparr>)) =
     (case fst (updateUser i upd now (st\<lparr>faults := True # fs\<rparr>)) of
        None \<Rightarrow> st\<lparr>faults := True # fs\<rparr> | Some _ \<Rightarrow> refused st fs) \<and>
   fst (deleteUser i (st\<lparr>faults := True # fs\<rparr>)) =
     fst (deleteUser i (st\<lparr>faults := False # fs\<rparr>)) \<and>
   snd (deleteUser i (st\<lparr>faults := True # fs\<rparr>)) =
     (if fst (deleteUser i (st\<lparr>faults := True # fs\<rparr>)) then refused st fs
      else st\<lparr>faults := True # fs\<rparr>) \<and>
   setCurrentUser (Some u) (st\<lparr>faults := True # fs\<rparr>) = refused st fs \<and>
   fst (updateTerminal i updT now (st\<lparr>faults := True # fs\<rparr>)) =
     fst (updateTerminal i updT now (st\<lparr>faults := False # fs\<rparr>)) \<and>
   snd (updateTerminal i updT now (st\<lparr>faults := True # fs\<rparr>)) =
     (case fst (updateTerminal i updT now (st\<lparr>faults := True # fs\<rparr>)) of
        None \<Rightarrow> st\<lparr>faults := True # fs\<rparr> | Some _ \<Rightarrow> refused st fs) \<and>
   fst (updateTerminalStatus i s ts now (st\<lparr>faults := True # fs\<rparr>)) =
     fst (updateTerminalStatus i s ts now (st\<lparr>faults := False # fs\<rparr>)) \<and>
   snd (updateTerminalStatus i s ts now (st\<lparr>faults := True # fs\<rparr>)) =
     (if fst (updateTerminalStatus i s ts now (st\<lparr>faults := True # fs\<rparr>))
      then refused st fs else st\<lparr>faults := True # fs\<rparr>) \<and>
   fst (createTicket dk t r tc tu (st\<lparr>faults := True # fs\<rparr>)) =
     fst (createTicket dk t r tc tu (st\<lparr>faults := False # fs\<rparr>)) \<and>
   snd (createTicket dk t r tc tu (st\<lparr>faults := True # fs\<rparr>)) = refused st fs \<and>
   fst (updateTicket i updK now (st\<lparr>faults := True # fs\<rparr>)) =
     fst (updateTicket i updK now (st\<lparr>faults := False # fs\<rparr>)) \<and>
   snd (updateTicket i updK now (st\<lparr>faults := True # fs\<rparr>)) =
     (case fst (updateTicket i updK now (st\<lparr>faults := True # fs\<rparr>)) of
        None \<Rightarrow> st\<lparr>faults := True # fs\<rparr> | Some _ \<Rightarrow> refused st fs) \<and>
   fst (createAlert da t r tc (st\<lparr>faults := True # fs\<rparr>)) =
     fst (createAlert da t r tc (st\<lparr>faults := False # fs\<rparr>)) \<and>
   snd (createAlert da t r tc (st\<lparr>faults := True # fs\<rparr>)) = refused st fs \<and>
   items (refused st fs) = items st \<and>
   console (refused st fs) = console st @ [''Error saving to localStorage:'']"
  by (simp add: createUser_def updateUser_def deleteUser_def setCurrentUser_def
      updateTerminal_def updateTerminalStatus_def createTicket_def updateTicket_def
      createAlert_def reads_faults setItem_refused Let_def refused_def
      split: option.splits)

theorem persistence_failure_swallowed_witness:
  "well_shaped seeded \<and>
   fst (updateUser ''user-admin-001'' [U_status Locked] 1762042100000
          (seeded\<lparr>faults := [True]\<rparr>)) =
     fst (updateUser ''user-admin-001'' [U_status Locked] 1762042100000
          (seeded\<lparr>faults := [False]\<rparr>)) \<and>
   fst (updateUser ''user-admin-001'' [U_status Locked] 1762042100000
          (seeded\<lparr>faults := [True]\<rparr>)) =
     Some (sample_admin\<lparr>user_status := Locked, user_updatedAt := 1762042100000\<rparr>) \<and>
   snd (updateUser ''user-admin-001'' [U_status Locked] 1762042100000
          (seeded\<lparr>faults := [True]\<rparr>)) = refused seeded [] \<and>
   fst (deleteUser ''user-admin-001'' (seeded\<lparr>faults := [True]\<rparr>)) \<and>
   snd (deleteUser ''user-admin-001'' (seeded\<lparr>faults := [True]\<rparr>)) = refused seeded [] \<and>
   setCurrentUser (Some sample_admin) (seeded\<lparr>faults := [True]\<rparr>) = refused seeded [] \<and>
   getUsers (refused seeded []) = getUsers seeded \<and>
   console (refused seeded []) = [''Error saving to localStorage:'']"
proof -
  have e: "fst (updateUser ''user-admin-001'' [U_status Locked] 1762042100000
                  (seeded\<lparr>faults := [True]\<rparr>)) =
             Some (sample_admin\<lparr>user_status := Locked, user_updatedAt := 1762042100000\<rparr>)"
    "fst (deleteUser ''user-admin-001'' (seeded\<lparr>faults := [True]\<rparr>))"
    by (simp_all add: updateUser_def deleteUser_def reads_faults seeded_gets spreadUser_def
        sample_admin_def generateSampleUsers_def)
  have g: "getUsers (refused seeded []) = getUsers seeded"
    by (simp add: refused_def getUsers_def getItem_def)
  from persistence_failure_swallowed[OF seeded_ok(1),
      where fs = "[]" and i = "''user-admin-001''" and upd = "[U_status Locked]"
        and now = 1762042100000 and u = sample_admin]
  show ?thesis
    using e g seeded_ok(1) by (simp add: seeded_items)
qed

subsection \<open>C7: an update with no field\<close>

text \<open>
  Claim C7. Let an id be present in its collection, \<open>i\<close> the index \<open>update\<close> finds for
  it. \<open>update(id, {})\<close>, called once or twice in a row, returns the entity at \<open>i\<close> with
  only \<open>updatedAt\<close> replaced by the time of the call, and the stored collection
  afterwards is the one before the calls except for the \<open>updatedAt\<close> of the entity at
  \<open>i\<close>: every other field of that entity and every other entity are as before. This
  holds for \<open>updateUser\<close>, \<open>updateTerminal\<close> and \<open>updateTicket\<close>. (The collection is
  exactly as before when the browser refused the write.)
\<close>

theorem empty_update_changes_only_updatedAt:
  fixes n1 n2 :: date
  assumes ws: "well_shaped st"
  shows
  "(findIndex (\<lambda>x. user_id x = uid) (getUsers st) = Some i \<longrightarrow>
      (let us = getUsers st;
           (ra, sta) = updateUser uid [] n1 st;
           (rb, stb) = updateUser uid [] n2 sta
       in ra = Some ((us ! i)\<lparr>user_updatedAt := n1\<rparr>) \<and>
          getUsers sta \<in> {us, us[i := (us ! i)\<lparr>user_updatedAt := n1\<rparr>]} \<and>
          rb = Some ((us ! i)\<lparr>user_updatedAt := n2\<rparr>) \<and>
          getUsers stb \<in> {us, us[i := (us ! i)\<lparr>user_updatedAt := n1\<rparr>],
                            us[i := (us ! i)\<lparr>user_updatedAt := n2\<rparr>]})) \<and>
   (findIndex (\<lambda>x. terminal_id x = tid) (getTerminals st) = Some j \<longrightarrow>
      (let ts = getTerminals st;
           (ra, sta) = updateTerminal tid [] n1 st;
           (rb, stb) = updateTerminal tid [] n2 sta
       in ra = Some ((ts ! j)\<lparr>terminal_updatedAt := n1\<rparr>) \<and>
          getTerminals sta \<in> {ts, ts[j := (ts ! j)\<lparr>terminal_updatedAt := n1\<rparr>]} \<and>
          rb = Some ((ts ! j)\<lparr>terminal_updatedAt := n2\<rparr>) \<and>
          getTerminals stb \<in> {ts, ts[j := (ts ! j)\<lparr>terminal_updatedAt := n1\<rparr>],
                                ts[j := (ts ! j)\<lparr>terminal_updatedAt := n2\<rparr>]})) \<and>
   (findIndex (\<lambda>x. ticket_id x = kid) (getTickets st) = Some l \<longrightarrow>
      (let ks = getTickets st;
           (ra, sta) = updateTicket kid [] n1 st;
           (rb, stb) = updateTicket kid [] n2 sta
       in ra = Some ((ks ! l)\<lparr>ticket_updatedAt := n1\<rparr>) \<and>
          getTickets sta \<in> {ks, ks[l := (ks ! l)\<lparr>ticket_updatedAt := n1\<rparr>]} \<and>
          rb = Some ((ks ! l)\<lparr>ticket_updatedAt := n2\<rparr>) \<and>
          getTickets stb \<in> {ks, ks[l := (ks ! l)\<lparr>ticket_updatedAt := n1\<rparr>],
                              ks[l := (ks ! l)\<lparr>ticket_updatedAt := n2\<rparr>]}))"
proof (intro conjI impI)
  assume f: "findIndex (\<lambda>x. user_id x = uid) (getUsers st) = Some i"
  from updateUser_empty_twice[OF f refl refl refl, of n1 n2]
  show "let us = getUsers st;
            (ra, sta) = updateUser uid [] n1 st;
            (rb, stb) = updateUser uid [] n2 sta
        in ra = Some ((us ! i)\<lparr>user_updatedAt := n1\<rparr>) \<and>
           getUsers sta \<in> {us, us[i := (us ! i)\<lparr>user_updatedAt := n1\<rparr>]} \<and>
           rb = Some ((us ! i)\<lparr>user_updatedAt := n2\<rparr>) \<and>
           getUsers stb \<in> {us, us[i := (us ! i)\<lparr>user_updatedAt := n1\<rparr>],
                             us[i := (us ! i)\<lparr>user_updatedAt := n2\<rparr>]}"
    by (simp add: Let_def split_beta)
next
  assume f: "findIndex (\<lambda>x. terminal_id x = tid) (getTerminals st) = Some j"
  from updateTerminal_empty_twice[OF f refl refl refl, of n1 n2]
  show "let ts = getTerminals st;
            (ra, sta) = updateTerminal tid [] n1 st;
            (rb, stb) = updateTerminal tid [] n2 sta
        in ra = Some ((ts ! j)\<lparr>terminal_updatedAt := n1\<rparr>) \<and>
           getTerminals sta \<in> {ts, ts[j := (ts ! j)\<lparr>terminal_updatedAt := n1\<rparr>]} \<and>
           rb = Some ((ts ! j)\<lparr>terminal_updatedAt := n2\<rparr>) \<and>
           getTerminals stb \<in> {ts, ts[j := (ts ! j)\<lparr>terminal_updatedAt := n1\<rparr>],
                                 ts[j := (ts ! j)\<lparr>terminal_updatedAt := n2\<rparr>]}"
    by (simp add: Let_def split_beta)
next
  assume f: "findIndex (\<lambda>x. ticket_id x = kid) (getTickets st) = Some l"
  from updateTicket_empty_twice[OF f refl refl refl, of n1 n2]
  show "let ks = getTickets st;
            (ra, sta) = updateTicket kid [] n1 st;
            (rb, stb) = updateTicket kid [] n2 sta
        in ra = Some ((ks ! l)\<lparr>ticket_updatedAt := n1\<rparr>) \<and>
           getTickets sta \<in> {ks, ks[l := (ks ! l)\<lparr>ticket_updatedAt := n1\<rparr>]} \<and>
           rb = Some ((ks ! l)\<lparr>ticket_updatedAt := n2\<rparr>) \<and>
           getTickets stb \<in> {ks, ks[l := (ks ! l)\<lparr>ticket_updatedAt := n1\<rparr>],
                               ks[l := (ks ! l)\<lparr>ticket_updatedAt := n2\<rparr>]}"
    by (simp add: Let_def split_beta)
qed

theorem empty_update_changes_only_updatedAt_witness:
  "well_shaped seeded \<and>
   findIndex (\<lambda>x. user_id x = ''user-support-001'') (getUsers seeded) = Some 1 \<and>
   findIndex (\<lambda>x. terminal_id x = ''T003'') (getTerminals seeded) = Some 2 \<and>
   findIndex (\<lambda>x. ticket_id x = ''TKT-2025-001'') (getTickets seeded) = Some 0 \<and>
   fst (updateUser ''user-support-001'' [] 1762042000000 seeded) =
     Some (sample_support\<lparr>user_updatedAt := 1762042000000\<rparr>) \<and>
   fst (updateUser ''user-support-001'' [] 1762042000500
          (snd (updateUser ''user-support-001'' [] 1762042000000 seeded))) =
     Some (sample_support\<lparr>user_updatedAt := 1762042000500\<rparr>) \<and>
   fst (updateTerminal ''T003'' [] 1762042000000 seeded) =
     Some ((generateSampleTerminals env0 ! 2)\<lparr>terminal_updatedAt := 1762042000000\<rparr>) \<and>
   fst (updateTicket ''TKT-2025-001'' [] 1762042000000 seeded) =
     Some ((generateSampleTickets env0 ! 0)\<lparr>ticket_updatedAt := 1762042000000\<rparr>)"
proof -
  have f: "findIndex (\<lambda>x. user_id x = ''user-support-001'') (getUsers seeded) = Some 1"
    "findIndex (\<lambda>x. terminal_id x = ''T003'') (getTerminals seeded) = Some 2"
    "findIndex (\<lambda>x. ticket_id x = ''TKT-2025-001'') (getTickets seeded) = Some 0"
    by (simp_all add: seeded_gets generateSampleUsers_def generateSampleTerminals_def
        generateSampleTickets_def Let_def)
  have g: "getUsers seeded ! 1 = sample_support"
    by (simp add: seeded_gets sample_support_def)
  from empty_update_changes_only_updatedAt[OF seeded_ok(1),
      of "''user-support-001''" 1 1762042000000 1762042000500 "''T003''" 2
         "''TKT-2025-001''" 0]
  show ?thesis
    using f g seeded_ok(1) by (simp add: Let_def split_beta seeded_gets sample_support_def)
qed

subsection \<open>C8: the keys of the storage\<close>

text \<open>
  Claim C8, as stated: the persisted layout has exactly six keys (users, terminals,
  tickets, alerts, metrics, current session) and the store reads and writes no other
  key. The service declares a seventh key, \<open>terminal_pulse_comments\<close>, and
  \<open>clearAllData\<close> removes the entry under it with the others: an entry stored there
  is gone after the call.
\<close>

theorem storage_keys_counterexample:
  "length STORAGE_KEYS = 7 \<and> COMMENTS \<in> set STORAGE_KEYS \<and> COMMENTS \<notin> set data_keys \<and>
   items legacy_store COMMENTS = Some (JText ''[]'') \<and>
   items (snd (perform (Call_clearAllData env0) legacy_store)) COMMENTS = None"
proof -
  have "items (fold removeItem STORAGE_KEYS legacy_store) COMMENTS = None"
    by (simp add: STORAGE_KEYS_def removeItem_def)
  moreover have "COMMENTS \<notin> set data_keys"
    by (simp add: data_keys_def key_defs)
  ultimately show ?thesis
    by (simp add: clearAllData_def frame_initializeData legacy_store_def STORAGE_KEYS_def)
qed

text \<open>
  Claim C8, amended (for a well-shaped store). The service declares seven keys: the six data keys (one for each
  of the collections users, terminals, tickets, alerts and metrics, and one for the
  current session) and a comments key. No call changes an entry under any other key.
  The entry under the comments key is never assigned; only \<open>clearAllData\<close> changes it,
  by removing it. The six data keys are the only ones read: on two stores that agree
  on them (and meet the same faults) every call returns the same value and leaves
  stores that agree on them again.
\<close>

theorem storage_keys_footprint:
  assumes ws: "well_shaped st"
  shows
  "length STORAGE_KEYS = 7 \<and> distinct STORAGE_KEYS \<and> length data_keys = 6 \<and>
   set STORAGE_KEYS = set data_keys \<union> {COMMENTS} \<and>
   (key \<notin> set STORAGE_KEYS \<longrightarrow> items (snd (perform c st)) key = items st key) \<and>
   (items (snd (perform c st)) COMMENTS = items st COMMENTS \<or>
    ((\<exists>env. c = Call_clearAllData env) \<and> items (snd (perform c st)) COMMENTS = None)) \<and>
   (same_data st st' \<longrightarrow>
      fst (perform c st') = fst (perform c st) \<and>
      same_data (snd (perform c st)) (snd (perform c st')))"
proof -
  have a: "length STORAGE_KEYS = 7" "distinct STORAGE_KEYS" "length data_keys = 6"
    "set STORAGE_KEYS = set data_keys \<union> {COMMENTS}"
    by (auto simp: STORAGE_KEYS_def data_keys_def key_defs)
  have b: "key \<notin> set STORAGE_KEYS \<longrightarrow> items (snd (perform c st)) key = items st key"
    by (rule impI) (rule frame_perform)
  have d: "same_data st st' \<longrightarrow>
      fst (perform c st') = fst (perform c st) \<and>
      same_data (snd (perform c st)) (snd (perform c st'))"
    by (rule impI) (rule same_data_perform)
  show ?thesis
    by (intro conjI) (rule a b d comments_perform)+
qed

theorem storage_keys_footprint_witness:
  "well_shaped seeded \<and> well_shaped foreign_store \<and> ''theme'' \<notin> set STORAGE_KEYS \<and>
   items foreign_store ''theme'' = Some (JText ''dark'') \<and>
   items (snd (perform (Call_clearAllData env0) foreign_store)) ''theme'' =
     Some (JText ''dark'') \<and>
   same_data seeded foreign_store \<and>
   fst (perform (Call_getTicketsByUser ''user-merchant-001'') seeded) =
     R_tickets (generateSampleTickets env0) \<and>
   fst (perform (Call_getTicketsByUser ''user-merchant-001'') foreign_store) =
     R_tickets (generateSampleTickets env0) \<and>
   same_data (snd (perform (Call_deleteUser ''user-admin-001'') seeded))
             (snd (perform (Call_deleteUser ''user-admin-001'') foreign_store))"
proof -
  have k: "''theme'' \<notin> set STORAGE_KEYS"
    by (simp add: STORAGE_KEYS_def key_defs)
  have wf: "well_shaped foreign_store"
    by (simp add: well_shaped_def foreign_store_def legacy_store_def seeded_items key_defs)
  have sd: "same_data seeded foreign_store"
    by (simp add: same_data_def data_keys_def foreign_store_def legacy_store_def key_defs)
  have v: "items foreign_store ''theme'' = Some (JText ''dark'')"
    by (simp add: foreign_store_def)
  have t: "fst (perform (Call_getTicketsByUser ''user-merchant-001'') seeded) =
             R_tickets (generateSampleTickets env0)"
    by (simp add: getTicketsByUser_def getUserById_def seeded_gets generateSampleUsers_def
        generateSampleTickets_def Let_def)
  have 1: "items (snd (perform (Call_clearAllData env0) foreign_store)) ''theme'' =
             Some (JText ''dark'')"
    using storage_keys_footprint[OF wf, of "''theme''" "Call_clearAllData env0" seeded]
      k v
    by simp
  have 2: "fst (perform (Call_getTicketsByUser ''user-merchant-001'') foreign_store) =
             R_tickets (generateSampleTickets env0)"
    using storage_keys_footprint[OF seeded_ok(1), of "''theme''"
        "Call_getTicketsByUser ''user-merchant-001''" foreign_store] sd t
    by simp
  have 3: "same_data (snd (perform (Call_deleteUser ''user-admin-001'') seeded))
             (snd (perform (Call_deleteUser ''user-admin-001'') foreign_store))"
    using storage_keys_footprint[OF seeded_ok(1), of "''theme''"
        "Call_deleteUser ''user-admin-001''" foreign_store] sd
    by simp
  from seeded_ok(1) wf k v 1 sd t 2 3 show ?thesis by (intro conjI)
qed

subsection \<open>C9: nobody logged in\<close>

text \<open>
  Claim C9. With no current user, \<open>getAccessibleTerminals()\<close> and
  \<open>getAccessibleTickets()\<close> both return the empty sequence, whatever the storage holds.
\<close>

theorem anonymous_sees_nothing:
  "currentUser state = None \<Longrightarrow>
     getAccessibleTerminals state st = [] \<and> getAccessibleTickets state st = []"
  by (simp add: getAccessibleTerminals_def getAccessibleTickets_def)

theorem anonymous_sees_nothing_witness:
  "currentUser initialState = None \<and>
   getAccessibleTerminals initialState seeded = [] \<and>
   getAccessibleTickets initialState seeded = [] \<and>
   length (getTerminals seeded) = 5 \<and> length (getTickets seeded) = 1"
proof -
  have n: "currentUser initialState = None"
    by (simp add: initialState_def)
  from anonymous_sees_nothing[OF n, of seeded] n show ?thesis
    by (simp add: seeded_gets generateSampleTerminals_def generateSampleTickets_def Let_def)
qed

subsection \<open>C10: a session whose user is gone\<close>

text \<open>
  Claim C10. When the current user's id matches no stored user,
  \<open>getAccessibleTickets()\<close> returns the empty sequence while
  \<open>getAccessibleTerminals()\<close> returns every stored terminal, whatever the role of the
  current user.
\<close>

theorem dangling_session:
  assumes ws: "well_shaped st" and cu: "currentUser state = Some cu"
    and gone: "user_id cu \<notin> set (map user_id (getUsers st))"
  shows "getAccessibleTickets state st = [] \<and>
         getAccessibleTerminals state st = getTerminals st"
proof -
  have "\<not> (\<exists>x. x \<in> set (getUsers st) \<and> user_id x = user_id cu)"
  proof
    assume "\<exists>x. x \<in> set (getUsers st) \<and> user_id x = user_id cu"
    then obtain x where x: "x \<in> set (getUsers st)" "user_id x = user_id cu"
      by blast
    from x(1) have "user_id x \<in> set (map user_id (getUsers st))"
      by simp
    with x(2) gone show False by simp
  qed
  then have "getUserById st (user_id cu) = None"
    by (simp add: getUserById_def find_None_iff)
  then show ?thesis using cu
    by (simp add: getAccessibleTerminals_def getAccessibleTickets_def
        getTerminalsByUser_def getTicketsByUser_def)
qed

theorem dangling_session_witness:
  "well_shaped orphan_store \<and> currentUser merchant_session = Some merchant_logged_in \<and>
   user_id merchant_logged_in \<notin> set (map user_id (getUsers orphan_store)) \<and>
   getAccessibleTickets merchant_session orphan_store = [] \<and>
   getTickets orphan_store = generateSampleTickets env0 \<and>
   getAccessibleTerminals merchant_session orphan_store = generateSampleTerminals env0"
proof -
  have g: "user_id merchant_logged_in \<notin> set (map user_id (getUsers orphan_store))"
    by (simp add: orphan_store_value(1) merchant_logged_in_def sample_merchant_def
        generateSampleUsers_def)
  from dangling_session[OF orphan_store_value(4) merchant_login_value(1) g]
  show ?thesis
    using g orphan_store_value merchant_login_value(1) by simp
qed

end
